theory Spec2Isabelle
  imports Main "HOL-Library.Word"
begin

section \<open>The CPU reference driver's script object (cpu\_ref/rsCpuScript.cpp)\<close>

text \<open>
  A shallow embedding of \<^verbatim>\<open>rsCpuScript.cpp\<close>: the launch set-up of a ForEach
  (\<^verbatim>\<open>forEachMtlsSetup\<close>, \<^verbatim>\<open>forEachKernelSetup\<close>, \<^verbatim>\<open>invokeForEach\<close>), the
  invocation wrappers, the binding of global variables, and the loader of the
  compatibility library (\<^verbatim>\<open>getRandomString\<close>, \<^verbatim>\<open>loadSOHelper\<close>, \<^verbatim>\<open>strgets\<close>,
  \<^verbatim>\<open>init\<close>, the destructor).

  Pointers are natural numbers, \<open>0\<close> is \<^verbatim>\<open>NULL\<close>; \<^verbatim>\<open>uint32_t\<close> is \<open>32 word\<close>.
\<close>

unbundle bit_operations_syntax

type_synonym u32 = "32 word"
type_synonym addr = nat

subsection \<open>Control flow of a C function body\<close>

text \<open>
  A statement either falls through (\<open>Next\<close>), leaves the function (\<open>Return\<close>),
  stops the process at a failed assertion (\<open>Abort\<close>), or has no defined behaviour
  (\<open>Fault\<close>: a read outside an array, a call or a read through \<^verbatim>\<open>NULL\<close>).
  Each carries the state reached.
\<close>

datatype 'a flow = Next 'a | Return 'a | Abort 'a | Fault 'a

fun reached :: "'a flow \<Rightarrow> 'a" where
  "reached (Next s) = s"
| "reached (Return s) = s"
| "reached (Abort s) = s"
| "reached (Fault s) = s"

fun thenf :: "'a flow \<Rightarrow> ('a \<Rightarrow> 'a flow) \<Rightarrow> 'a flow" where
  "thenf (Next s) f = f s"
| "thenf (Return s) f = Return s"
| "thenf (Abort s) f = Abort s"
| "thenf (Fault s) f = Fault s"

text \<open>How a function body ended: after its last statement, at a \<^verbatim>\<open>return\<close>, at a failed assertion.\<close>

fun completed :: "'a flow \<Rightarrow> bool" where
  "completed (Next s) = True"
| "completed (Return s) = False"
| "completed (Abort s) = False"
| "completed (Fault s) = False"

fun leftEarly :: "'a flow \<Rightarrow> bool" where
  "leftEarly (Return s) = True"
| "leftEarly (Next s) = False"
| "leftEarly (Abort s) = False"
| "leftEarly (Fault s) = False"

fun aborted :: "'a flow \<Rightarrow> bool" where
  "aborted (Abort s) = True"
| "aborted (Next s) = False"
| "aborted (Return s) = False"
| "aborted (Fault s) = False"

subsection \<open>The host context\<close>

text \<open>
  What the script object reaches through \<^verbatim>\<open>mCtx\<close>: the error sink
  (\<^verbatim>\<open>setError\<close>), the thread-local current script (\<^verbatim>\<open>setTLS\<close>), and two
  logs the model keeps: the assertions that failed, and every call into native
  script code together with the thread-local value in force during the call.
\<close>

record Context =
  errors :: "string list"
  asserts :: "string list"
  tls :: "nat option"
  calls :: "(addr \<times> nat option) list"

definition setError :: "string \<Rightarrow> 'a Context_scheme \<Rightarrow> 'a Context_scheme" where
  "setError msg c = c\<lparr>errors := errors c @ [msg]\<rparr>"

text \<open>
  \<^verbatim>\<open>rsAssert\<close> is a macro of \<^verbatim>\<open>rsUtils.h\<close>, which is not part of this file, so
  what a failed assertion does is a parameter of the model: with \<open>fatal\<close> the
  process stops there, without it the failure is logged and the next statement
  runs. The failed condition is recorded either way.
\<close>

definition rsAssert ::
  "bool \<Rightarrow> bool \<Rightarrow> string \<Rightarrow> 'a Context_scheme \<Rightarrow> 'a Context_scheme flow" where
  "rsAssert fatal v txt c =
     (if v then Next c
      else if fatal then Abort (c\<lparr>asserts := asserts c @ [txt]\<rparr>)
      else Next (c\<lparr>asserts := asserts c @ [txt]\<rparr>))"

subsection \<open>Buffers, sub-regions and the launch descriptor\<close>

text \<open>
  Of an \<^verbatim>\<open>Allocation\<close> the file reads \<^verbatim>\<open>mHal.drvState.lod[0].mallocPtr\<close>,
  \<^verbatim>\<open>lod[0].stride\<close>, and through \<^verbatim>\<open>getType()\<close> the three extents and the
  element size.
\<close>

record Allocation =
  mallocPtr :: addr
  lodStride :: u32
  tyDimX :: u32
  tyDimY :: u32
  tyDimZ :: u32
  elementSizeBytes :: u32

record RsScriptCall =
  sc_xStart :: u32
  sc_xEnd :: u32
  sc_yStart :: u32
  sc_yEnd :: u32
  sc_zStart :: u32
  sc_zEnd :: u32
  sc_arrayStart :: u32
  sc_arrayEnd :: u32

text \<open>\<^verbatim>\<open>MTLaunchStruct\<close>, with the fields of its member \<^verbatim>\<open>fep\<close> prefixed.\<close>

record MTLaunchStruct =
  fep_ptrIn :: addr
  fep_ptrOut :: addr
  fep_usr :: addr
  fep_usrLen :: u32
  fep_dimX :: u32
  fep_dimY :: u32
  fep_dimZ :: u32
  fep_eStrideIn :: u32
  fep_eStrideOut :: u32
  fep_yStrideIn :: u32
  fep_yStrideOut :: u32
  fep_slot :: u32
  xStart :: u32
  xEnd :: u32
  yStart :: u32
  yEnd :: u32
  zStart :: u32
  zEnd :: u32
  arrayStart :: u32
  arrayEnd :: u32
  mSliceSize :: u32
  mSliceNum :: u32
  isThreadable :: bool
  rsc :: addr
  mt_ain :: "Allocation option"
  mt_aout :: "Allocation option"
  mt_script :: "nat option"
  kernel :: addr
  sig :: u32

text \<open>\<^verbatim>\<open>memset(mtls, 0, sizeof(MTLaunchStruct))\<close>.\<close>

definition mtls_zero :: MTLaunchStruct where
  "mtls_zero =
     \<lparr>fep_ptrIn = 0, fep_ptrOut = 0, fep_usr = 0, fep_usrLen = 0,
      fep_dimX = 0, fep_dimY = 0, fep_dimZ = 0,
      fep_eStrideIn = 0, fep_eStrideOut = 0, fep_yStrideIn = 0, fep_yStrideOut = 0,
      fep_slot = 0,
      xStart = 0, xEnd = 0, yStart = 0, yEnd = 0, zStart = 0, zEnd = 0,
      arrayStart = 0, arrayEnd = 0,
      mSliceSize = 0, mSliceNum = 0, isThreadable = False, rsc = 0,
      mt_ain = None, mt_aout = None, mt_script = None, kernel = 0, sig = 0\<rparr>"

text \<open>The state of a launch: the host context and the descriptor being filled.\<close>

record Launch = Context +
  mtls :: MTLaunchStruct

definition unbacked :: "Allocation option \<Rightarrow> bool" where
  "unbacked a = (case a of None \<Rightarrow> False | Some al \<Rightarrow> mallocPtr al = 0)"

text \<open>A buffer that is present and has backing store.\<close>

definition backed :: "Allocation option \<Rightarrow> bool" where
  "backed a = (case a of None \<Rightarrow> False | Some al \<Rightarrow> mallocPtr al \<noteq> 0)"

text \<open>
  The three blocks of \<^verbatim>\<open>forEachMtlsSetup\<close> that restrict one axis each. An
  absent \<^verbatim>\<open>sc\<close> or an end of \<open>0\<close> takes the full extent; otherwise the three
  assertions run, both bounds are clamped with \<^verbatim>\<open>rsMin\<close>, and an empty range
  returns from the function.
\<close>

definition restrictX :: "bool \<Rightarrow> RsScriptCall option \<Rightarrow> Launch \<Rightarrow> Launch flow" where
  "restrictX fatal sc l =
     (let d = fep_dimX (mtls l) in
      case sc of
        None \<Rightarrow> Next (l\<lparr>mtls := (mtls l)\<lparr>xEnd := d\<rparr>\<rparr>)
      | Some r \<Rightarrow>
          if sc_xEnd r = 0 then Next (l\<lparr>mtls := (mtls l)\<lparr>xEnd := d\<rparr>\<rparr>)
          else
            thenf (rsAssert fatal (sc_xStart r < d) ''sc->xStart < mtls->fep.dimX'' l) (\<lambda>l.
            thenf (rsAssert fatal (sc_xEnd r \<le> d) ''sc->xEnd <= mtls->fep.dimX'' l) (\<lambda>l.
            thenf (rsAssert fatal (sc_xStart r < sc_xEnd r) ''sc->xStart < sc->xEnd'' l) (\<lambda>l.
              let m = (mtls l)\<lparr>xStart := min d (sc_xStart r), xEnd := min d (sc_xEnd r)\<rparr>
              in if xEnd m \<le> xStart m then Return (l\<lparr>mtls := m\<rparr>)
                 else Next (l\<lparr>mtls := m\<rparr>)))))"

definition restrictY :: "bool \<Rightarrow> RsScriptCall option \<Rightarrow> Launch \<Rightarrow> Launch flow" where
  "restrictY fatal sc l =
     (let d = fep_dimY (mtls l) in
      case sc of
        None \<Rightarrow> Next (l\<lparr>mtls := (mtls l)\<lparr>yEnd := d\<rparr>\<rparr>)
      | Some r \<Rightarrow>
          if sc_yEnd r = 0 then Next (l\<lparr>mtls := (mtls l)\<lparr>yEnd := d\<rparr>\<rparr>)
          else
            thenf (rsAssert fatal (sc_yStart r < d) ''sc->yStart < mtls->fep.dimY'' l) (\<lambda>l.
            thenf (rsAssert fatal (sc_yEnd r \<le> d) ''sc->yEnd <= mtls->fep.dimY'' l) (\<lambda>l.
            thenf (rsAssert fatal (sc_yStart r < sc_yEnd r) ''sc->yStart < sc->yEnd'' l) (\<lambda>l.
              let m = (mtls l)\<lparr>yStart := min d (sc_yStart r), yEnd := min d (sc_yEnd r)\<rparr>
              in if yEnd m \<le> yStart m then Return (l\<lparr>mtls := m\<rparr>)
                 else Next (l\<lparr>mtls := m\<rparr>)))))"

definition restrictZ :: "bool \<Rightarrow> RsScriptCall option \<Rightarrow> Launch \<Rightarrow> Launch flow" where
  "restrictZ fatal sc l =
     (let d = fep_dimZ (mtls l) in
      case sc of
        None \<Rightarrow> Next (l\<lparr>mtls := (mtls l)\<lparr>zEnd := d\<rparr>\<rparr>)
      | Some r \<Rightarrow>
          if sc_zEnd r = 0 then Next (l\<lparr>mtls := (mtls l)\<lparr>zEnd := d\<rparr>\<rparr>)
          else
            thenf (rsAssert fatal (sc_zStart r < d) ''sc->zStart < mtls->fep.dimZ'' l) (\<lambda>l.
            thenf (rsAssert fatal (sc_zEnd r \<le> d) ''sc->zEnd <= mtls->fep.dimZ'' l) (\<lambda>l.
            thenf (rsAssert fatal (sc_zStart r < sc_zEnd r) ''sc->zStart < sc->zEnd'' l) (\<lambda>l.
              let m = (mtls l)\<lparr>zStart := min d (sc_zStart r), zEnd := min d (sc_zEnd r)\<rparr>
              in if zEnd m \<le> zStart m then Return (l\<lparr>mtls := m\<rparr>)
                 else Next (l\<lparr>mtls := m\<rparr>)))))"

text \<open>The extents come from the input when there is one, else from the output.\<close>

definition takeDims :: "Allocation \<Rightarrow> Launch \<Rightarrow> Launch" where
  "takeDims a l =
     l\<lparr>mtls := (mtls l)\<lparr>fep_dimX := tyDimX a, fep_dimY := tyDimY a, fep_dimZ := tyDimZ a\<rparr>\<rparr>"

text \<open>The statements after the three axis blocks, from the \<^verbatim>\<open>rsMax\<close> floor on.\<close>

definition floorEnds :: "MTLaunchStruct \<Rightarrow> MTLaunchStruct" where
  "floorEnds m =
     m\<lparr>xEnd := max 1 (xEnd m), yEnd := max 1 (yEnd m), zEnd := max 1 (zEnd m),
       arrayEnd := max 1 (arrayEnd m)\<rparr>"

definition fillIn :: "Allocation option \<Rightarrow> MTLaunchStruct \<Rightarrow> MTLaunchStruct" where
  "fillIn ain m =
     (case ain of
        None \<Rightarrow> m
      | Some a \<Rightarrow> m\<lparr>fep_ptrIn := mallocPtr a, fep_eStrideIn := elementSizeBytes a,
                     fep_yStrideIn := lodStride a\<rparr>)"

definition fillOut :: "Allocation option \<Rightarrow> MTLaunchStruct \<Rightarrow> MTLaunchStruct" where
  "fillOut aout m =
     (case aout of
        None \<Rightarrow> m
      | Some a \<Rightarrow> m\<lparr>fep_ptrOut := mallocPtr a, fep_eStrideOut := elementSizeBytes a,
                     fep_yStrideOut := lodStride a\<rparr>)"

definition inputIsFlat :: "Allocation option \<Rightarrow> bool" where
  "inputIsFlat ain = (case ain of None \<Rightarrow> True | Some a \<Rightarrow> tyDimZ a = 0)"

definition finishSetup ::
  "bool \<Rightarrow> addr \<Rightarrow> bool \<Rightarrow> Allocation option \<Rightarrow> Allocation option \<Rightarrow> addr \<Rightarrow> u32 \<Rightarrow>
   Launch \<Rightarrow> Launch flow" where
  "finishSetup fatal ctxp threadable ain aout usr usrLen l =
     (let l1 = l\<lparr>mtls := floorEnds (mtls l)\<rparr> in
      thenf (rsAssert fatal (inputIsFlat ain) ''!ain || (ain->getType()->getDimZ() == 0)'' l1)
        (\<lambda>l2.
          let m1 = (mtls l2)\<lparr>rsc := ctxp, mt_ain := ain, mt_aout := aout, fep_usr := usr,
                     fep_usrLen := usrLen, mSliceSize := 1, mSliceNum := 0,
                     fep_ptrIn := 0, fep_eStrideIn := 0, isThreadable := threadable\<rparr>;
              m2 = fillIn ain m1;
              m3 = fillOut aout (m2\<lparr>fep_ptrOut := 0, fep_eStrideOut := 0\<rparr>)
          in Next (l2\<lparr>mtls := m3\<rparr>)))"

text \<open>
  \<^verbatim>\<open>RsdCpuScriptImpl::forEachMtlsSetup\<close>. \<open>ctxp\<close> is \<^verbatim>\<open>mCtx\<close> and \<open>threadable\<close>
  is \<^verbatim>\<open>mIsThreadable\<close>; the context \<open>c\<close> comes in and the launch state goes out.
\<close>

definition forEachMtlsSetup ::
  "bool \<Rightarrow> addr \<Rightarrow> bool \<Rightarrow> Allocation option \<Rightarrow> Allocation option \<Rightarrow> addr \<Rightarrow> u32 \<Rightarrow>
   RsScriptCall option \<Rightarrow> Context \<Rightarrow> Launch flow" where
  "forEachMtlsSetup fatal ctxp threadable ain aout usr usrLen sc c =
     (let l = Context.extend c (Launch.fields mtls_zero) in
      if unbacked ain then
        Return (setError ''rsForEach called with null in allocations'' l)
      else if unbacked aout then
        Return (setError ''rsForEach called with null out allocations'' l)
      else
        thenf (case ain of
                 Some a \<Rightarrow> Next (takeDims a l)
               | None \<Rightarrow>
                   (case aout of
                      Some a \<Rightarrow> Next (takeDims a l)
                    | None \<Rightarrow> Return (setError ''rsForEach called with null allocations'' l)))
          (\<lambda>l. thenf (restrictX fatal sc l)
          (\<lambda>l. thenf (restrictY fatal sc l)
          (\<lambda>l. thenf (restrictZ fatal sc l)
          (finishSetup fatal ctxp threadable ain aout usr usrLen)))))"

subsection \<open>Heap arrays and the script object\<close>

text \<open>
  The arrays made with \<^verbatim>\<open>new[]\<close>: a block per live array, the next fresh address,
  the number of allocations that will still succeed (the code tests some results of
  \<^verbatim>\<open>new[]\<close> for \<^verbatim>\<open>NULL\<close>), and the log of every \<^verbatim>\<open>delete[]\<close> of a pointer
  other than \<^verbatim>\<open>NULL\<close> (releasing \<^verbatim>\<open>NULL\<close> does nothing), in order.
\<close>

datatype block = Bools "bool list" | Ptrs "addr list" | Sigs "u32 list"

record Heap =
  blocks :: "addr \<Rightarrow> block option"
  brk :: addr
  avail :: nat
  frees :: "addr list"

text \<open>
  The members of \<^verbatim>\<open>RsdCpuScriptImpl\<close>. \<open>this\<close> names the object. The six array
  members and \<^verbatim>\<open>mScriptSO\<close> belong to the compatibility library
  (\<^verbatim>\<open>RS_COMPATIBILITY_LIB\<close>); a library handle is the name it was opened under,
  \<open>None\<close> is \<^verbatim>\<open>NULL\<close>. In the other build \<^verbatim>\<open>mExecutable\<close> holds the vectors of
  addresses, here the four \<open>exe\<close> fields.
\<close>

record RsdCpuScriptImpl =
  this :: nat
  mCtx :: addr
  mIsThreadable :: bool
  mRoot :: addr
  mRootExpand :: addr
  mInit :: addr
  mFreeChildren :: addr
  mScriptSO :: "string option"
  mInvokeFunctions :: addr
  mForEachFunctions :: addr
  mFieldAddress :: addr
  mFieldIsObject :: addr
  mForEachSignatures :: addr
  mBoundAllocs :: addr
  mExportedVariableCount :: nat
  mExportedFunctionCount :: nat
  exeForeachFuncAddrs :: "addr list"
  exeForeachSigs :: "u32 list"
  exeFuncAddrs :: "addr list"
  exeVarAddrs :: "addr list"

text \<open>Reading \<^verbatim>\<open>p[i]\<close>: \<open>None\<close> when \<open>p\<close> is no live array of that kind or \<open>i\<close> is outside it.\<close>

definition readPtr :: "Heap \<Rightarrow> addr \<Rightarrow> nat \<Rightarrow> addr option" where
  "readPtr h p i =
     (case blocks h p of
        Some (Ptrs xs) \<Rightarrow> if i < length xs then Some (xs ! i) else None
      | _ \<Rightarrow> None)"

definition readSig :: "Heap \<Rightarrow> addr \<Rightarrow> nat \<Rightarrow> u32 option" where
  "readSig h p i =
     (case blocks h p of
        Some (Sigs xs) \<Rightarrow> if i < length xs then Some (xs ! i) else None
      | _ \<Rightarrow> None)"

definition readBool :: "Heap \<Rightarrow> addr \<Rightarrow> nat \<Rightarrow> bool option" where
  "readBool h p i =
     (case blocks h p of
        Some (Bools xs) \<Rightarrow> if i < length xs then Some (xs ! i) else None
      | _ \<Rightarrow> None)"

definition nth_opt :: "'a list \<Rightarrow> nat \<Rightarrow> 'a option" where
  "nth_opt xs i = (if i < length xs then Some (xs ! i) else None)"

subsection \<open>Kernel resolution\<close>

text \<open>
  \<^verbatim>\<open>RsdCpuScriptImpl::forEachKernelSetup\<close>, in both builds (\<open>clib\<close> stands for
  \<^verbatim>\<open>RS_COMPATIBILITY_LIB\<close>). The full build asserts the slot against the number of
  kernels before it indexes; the compatibility build indexes \<^verbatim>\<open>mForEachFunctions\<close>
  at once. Both assert that the kernel is not \<^verbatim>\<open>NULL\<close>.
\<close>

definition forEachKernelSetup ::
  "bool \<Rightarrow> bool \<Rightarrow> RsdCpuScriptImpl \<Rightarrow> Heap \<Rightarrow> u32 \<Rightarrow> Launch \<Rightarrow> Launch flow" where
  "forEachKernelSetup fatal clib s h slot l =
     (let l1 = l\<lparr>mtls := (mtls l)\<lparr>mt_script := Some (this s), fep_slot := slot\<rparr>\<rparr> in
      if clib then
        (case readPtr h (mForEachFunctions s) (unat slot) of
           None \<Rightarrow> Fault l1
         | Some k \<Rightarrow>
             thenf (rsAssert fatal (k \<noteq> 0) ''mtls->kernel != NULL''
                      (l1\<lparr>mtls := (mtls l1)\<lparr>kernel := k\<rparr>\<rparr>)) (\<lambda>l2.
               case readSig h (mForEachSignatures s) (unat slot) of
                 None \<Rightarrow> Fault l2
               | Some g \<Rightarrow> Next (l2\<lparr>mtls := (mtls l2)\<lparr>sig := g\<rparr>\<rparr>)))
      else
        thenf (rsAssert fatal (unat slot < length (exeForeachFuncAddrs s))
                 ''slot < mExecutable->getExportForeachFuncAddrs().size()'' l1) (\<lambda>l2.
          case nth_opt (exeForeachFuncAddrs s) (unat slot) of
            None \<Rightarrow> Fault l2
          | Some k \<Rightarrow>
              thenf (rsAssert fatal (k \<noteq> 0) ''mtls->kernel != NULL''
                       (l2\<lparr>mtls := (mtls l2)\<lparr>kernel := k\<rparr>\<rparr>)) (\<lambda>l3.
                case nth_opt (exeForeachSigs s) (unat slot) of
                  None \<Rightarrow> Fault l3
                | Some g \<Rightarrow> Next (l3\<lparr>mtls := (mtls l3)\<lparr>sig := g\<rparr>\<rparr>))))"

subsection \<open>The dispatcher and the invocation wrappers\<close>

text \<open>
  Modelled from the spec: \<^verbatim>\<open>setTLS\<close> of the CPU reference implementation
  (\<^verbatim>\<open>rsCpuCore\<close>) is not in this file. It installs the thread-local reference to
  the executing script and hands back the previous one (section 4.5).
\<close>

definition setTLS :: "nat option \<Rightarrow> 'a Context_scheme \<Rightarrow> nat option \<times> 'a Context_scheme" where
  "setTLS v c = (tls c, c\<lparr>tls := v\<rparr>)"

text \<open>
  Modelled from the spec: \<^verbatim>\<open>launchThreads\<close> of the CPU reference implementation
  (\<^verbatim>\<open>rsCpuCore\<close>), the parallel dispatcher, is not in this file. Sections 4.4
  and 6: it takes the launch descriptor, partitions its domain into slices of one
  row each, calls the kernel once per slice and returns when all slices are done.
  A row is a pair \<open>(z, y)\<close> inside the bounds of a domain whose x range is not
  empty.
\<close>

definition slices :: "MTLaunchStruct \<Rightarrow> (nat \<times> nat) list" where
  "slices m =
     (if xEnd m \<le> xStart m then []
      else List.product [unat (zStart m)..<unat (zEnd m)] [unat (yStart m)..<unat (yEnd m)])"

definition launchThreads :: "MTLaunchStruct \<Rightarrow> 'a Context_scheme \<Rightarrow> 'a Context_scheme" where
  "launchThreads m c = c\<lparr>calls := calls c @ map (\<lambda>row. (kernel m, tls c)) (slices m)\<rparr>"

text \<open>A callee that returned hands control back to the statement after the call.\<close>

fun returned :: "'a flow \<Rightarrow> 'a flow" where
  "returned (Return s) = Next s"
| "returned (Next s) = Next s"
| "returned (Abort s) = Abort s"
| "returned (Fault s) = Fault s"

text \<open>\<^verbatim>\<open>RsdCpuScriptImpl::invokeForEach\<close>.\<close>

definition invokeForEach ::
  "bool \<Rightarrow> bool \<Rightarrow> RsdCpuScriptImpl \<Rightarrow> Heap \<Rightarrow> u32 \<Rightarrow> Allocation option \<Rightarrow> Allocation option \<Rightarrow>
   addr \<Rightarrow> u32 \<Rightarrow> RsScriptCall option \<Rightarrow> Context \<Rightarrow> Launch flow" where
  "invokeForEach fatal clib s h slot ain aout usr usrLen sc c =
     thenf (returned (forEachMtlsSetup fatal (mCtx s) (mIsThreadable s) ain aout usr usrLen sc c)) (\<lambda>l.
     thenf (returned (forEachKernelSetup fatal clib s h slot l)) (\<lambda>l.
       let (oldTLS, l1) = setTLS (Some (this s)) l;
           l2 = launchThreads (mtls l1) l1
       in Next (snd (setTLS oldTLS l2))))"

text \<open>
  A call into native script code: the call and the thread-local value in force are
  logged, then the code runs; what it does to the context is the parameter
  \<open>native\<close>. Calling through \<^verbatim>\<open>NULL\<close> has no defined behaviour.
\<close>

definition callNative :: "(addr \<Rightarrow> Context \<Rightarrow> Context) \<Rightarrow> addr \<Rightarrow> Context \<Rightarrow> Context flow" where
  "callNative native f c =
     (if f = 0 then Fault c else Next (native f (c\<lparr>calls := calls c @ [(f, tls c)]\<rparr>)))"

text \<open>\<^verbatim>\<open>invokeRoot\<close>, \<^verbatim>\<open>invokeInit\<close>, \<^verbatim>\<open>invokeFreeChildren\<close>, \<^verbatim>\<open>invokeFunction\<close>.\<close>

definition invokeRoot ::
  "(addr \<Rightarrow> Context \<Rightarrow> Context) \<Rightarrow> RsdCpuScriptImpl \<Rightarrow> Context \<Rightarrow> Context flow" where
  "invokeRoot native s c =
     (let (oldTLS, c1) = setTLS (Some (this s)) c in
      thenf (callNative native (mRoot s) c1) (\<lambda>c2. Next (snd (setTLS oldTLS c2))))"

definition invokeInit ::
  "(addr \<Rightarrow> Context \<Rightarrow> Context) \<Rightarrow> RsdCpuScriptImpl \<Rightarrow> Context \<Rightarrow> Context flow" where
  "invokeInit native s c = (if mInit s \<noteq> 0 then callNative native (mInit s) c else Next c)"

definition invokeFreeChildren ::
  "(addr \<Rightarrow> Context \<Rightarrow> Context) \<Rightarrow> RsdCpuScriptImpl \<Rightarrow> Context \<Rightarrow> Context flow" where
  "invokeFreeChildren native s c =
     (if mFreeChildren s \<noteq> 0 then callNative native (mFreeChildren s) c else Next c)"

definition invokeFunction ::
  "(addr \<Rightarrow> Context \<Rightarrow> Context) \<Rightarrow> bool \<Rightarrow> RsdCpuScriptImpl \<Rightarrow> Heap \<Rightarrow> u32 \<Rightarrow> Context \<Rightarrow>
   Context flow" where
  "invokeFunction native clib s h slot c =
     (let (oldTLS, c1) = setTLS (Some (this s)) c in
      case (if clib then readPtr h (mInvokeFunctions s) (unat slot)
            else nth_opt (exeFuncAddrs s) (unat slot)) of
        None \<Rightarrow> Fault c1
      | Some f \<Rightarrow> thenf (callNative native f c1) (\<lambda>c2. Next (snd (setTLS oldTLS c2))))"

text \<open>The iteration domain a descriptor holds: start and end of each axis.\<close>

definition domainOf :: "MTLaunchStruct \<Rightarrow> (u32 \<times> u32) \<times> (u32 \<times> u32) \<times> (u32 \<times> u32)" where
  "domainOf m = ((xStart m, xEnd m), (yStart m, yEnd m), (zStart m, zEnd m))"

text \<open>The buffer whose extents govern the launch: the input when there is one.\<close>

definition governing :: "Allocation option \<Rightarrow> Allocation option \<Rightarrow> Allocation option" where
  "governing ain aout = (case ain of Some a \<Rightarrow> Some a | None \<Rightarrow> aout)"

text \<open>No sub-region: \<^verbatim>\<open>sc\<close> is \<^verbatim>\<open>NULL\<close>, or its three end fields are \<open>0\<close>.\<close>

definition unrestricted :: "RsScriptCall option \<Rightarrow> bool" where
  "unrestricted sc =
     (case sc of None \<Rightarrow> True | Some r \<Rightarrow> sc_xEnd r = 0 \<and> sc_yEnd r = 0 \<and> sc_zEnd r = 0)"

text \<open>
  One axis of a sub-region against the extent \<open>d\<close> of its axis: an end of 0 leaves
  the axis unrestricted (the full extent, floored at 1), any other end restricts it
  to the start and end clamped to \<open>d\<close>.
\<close>

definition axisRange :: "u32 \<Rightarrow> u32 \<Rightarrow> u32 \<Rightarrow> u32 \<times> u32" where
  "axisRange d s e = (if e = 0 then (0, max 1 d) else (min d s, min d e))"

definition axisWithin :: "u32 \<Rightarrow> u32 \<Rightarrow> u32 \<Rightarrow> bool" where
  "axisWithin d s e = (e = 0 \<or> (s < e \<and> e \<le> d))"

definition axisEmpty :: "u32 \<Rightarrow> u32 \<Rightarrow> u32 \<Rightarrow> bool" where
  "axisEmpty d s e = (e \<noteq> 0 \<and> min d e \<le> min d s)"

text \<open>\<open>start < end \<le> extent\<close> on every restricted axis.\<close>

definition within :: "RsScriptCall \<Rightarrow> Allocation \<Rightarrow> bool" where
  "within r a =
     (axisWithin (tyDimX a) (sc_xStart r) (sc_xEnd r) \<and>
      axisWithin (tyDimY a) (sc_yStart r) (sc_yEnd r) \<and>
      axisWithin (tyDimZ a) (sc_zStart r) (sc_zEnd r))"

text \<open>\<open>start \<ge> end\<close> after clamping, on some restricted axis.\<close>

definition emptyAfterClamp :: "RsScriptCall \<Rightarrow> Allocation \<Rightarrow> bool" where
  "emptyAfterClamp r a =
     (axisEmpty (tyDimX a) (sc_xStart r) (sc_xEnd r) \<or>
      axisEmpty (tyDimY a) (sc_yStart r) (sc_yEnd r) \<or>
      axisEmpty (tyDimZ a) (sc_zStart r) (sc_zEnd r))"

text \<open>
  Two states agree on what the host can observe from outside the descriptor: the
  errors reported, the native calls made and the thread-local script.
\<close>

definition sameCtx :: "'a Context_scheme \<Rightarrow> 'b Context_scheme \<Rightarrow> bool" where
  "sameCtx c c' = (errors c' = errors c \<and> calls c' = calls c \<and> tls c' = tls c)"

text \<open>
  A set-up that does not end in a descriptor with rows to run: it stopped, or it
  returned early with a domain that has no slice.
\<close>

definition rowless :: "Launch flow \<Rightarrow> bool" where
  "rowless f = (case f of Next l \<Rightarrow> False | Return l \<Rightarrow> slices (mtls l) = [] | _ \<Rightarrow> True)"

subsection \<open>Construction\<close>

text \<open>
  The constructor \<^verbatim>\<open>RsdCpuScriptImpl(ctx, s)\<close>: every pointer \<^verbatim>\<open>NULL\<close>,
  \<^verbatim>\<open>mIsThreadable\<close> true. It leaves the two export counts uninitialised; the
  model starts them at 0. No executable is attached yet.
\<close>

definition construct :: "nat \<Rightarrow> addr \<Rightarrow> RsdCpuScriptImpl" where
  "construct self ctxp =
     \<lparr>this = self, mCtx = ctxp, mIsThreadable = True,
      mRoot = 0, mRootExpand = 0, mInit = 0, mFreeChildren = 0,
      mScriptSO = None,
      mInvokeFunctions = 0, mForEachFunctions = 0, mFieldAddress = 0, mFieldIsObject = 0,
      mForEachSignatures = 0, mBoundAllocs = 0,
      mExportedVariableCount = 0, mExportedFunctionCount = 0,
      exeForeachFuncAddrs = [], exeForeachSigs = [], exeFuncAddrs = [], exeVarAddrs = []\<rparr>"

text \<open>A heap with no array, and a context in which nothing has happened yet.\<close>

definition emptyHeap :: Heap where
  "emptyHeap = \<lparr>blocks = (\<lambda>p. None), brk = 1, avail = 8, frees = []\<rparr>"

definition idle :: Context where
  "idle = \<lparr>errors = [], asserts = [], tls = None, calls = []\<rparr>"

fun faulted :: "'a flow \<Rightarrow> bool" where
  "faulted (Fault s) = True"
| "faulted (Next s) = False"
| "faulted (Return s) = False"
| "faulted (Abort s) = False"

text \<open>
  A script of the compatibility library with one kernel, as \<^verbatim>\<open>init\<close> leaves it
  for \<^verbatim>\<open>exportForEachCount: 1\<close>: \<^verbatim>\<open>mForEachFunctions\<close> and
  \<^verbatim>\<open>mForEachSignatures\<close> are arrays of one entry.
\<close>

definition oneKernelHeap :: Heap where
  "oneKernelHeap =
     \<lparr>blocks = (\<lambda>p. if p = 1 then Some (Sigs [1]) else if p = 2 then Some (Ptrs [500]) else None),
      brk = 3, avail = 8, frees = []\<rparr>"

definition oneKernelScript :: RsdCpuScriptImpl where
  "oneKernelScript = (construct 1 7)\<lparr>mForEachSignatures := 1, mForEachFunctions := 2\<rparr>"

text \<open>
  Buffers and sub-regions for examples: an image of 8 by 4 cells, a surface of the
  same type that has no backing store yet, a volume of 8 by 4 by 2 cells; the
  columns from 5 to 3, which is no column at all, and the window of columns 2 to 5
  and rows 1 to 2. And a script of the full build with one kernel.
\<close>

definition image8x4 :: Allocation where
  "image8x4 =
     \<lparr>mallocPtr = 4096, lodStride = 32, tyDimX = 8, tyDimY = 4, tyDimZ = 0, elementSizeBytes = 4\<rparr>"

definition unboundSurface :: Allocation where
  "unboundSurface =
     \<lparr>mallocPtr = 0, lodStride = 32, tyDimX = 8, tyDimY = 4, tyDimZ = 0, elementSizeBytes = 4\<rparr>"

definition volume8x4x2 :: Allocation where
  "volume8x4x2 =
     \<lparr>mallocPtr = 8192, lodStride = 32, tyDimX = 8, tyDimY = 4, tyDimZ = 2, elementSizeBytes = 4\<rparr>"

definition columns5to3 :: RsScriptCall where
  "columns5to3 =
     \<lparr>sc_xStart = 5, sc_xEnd = 3, sc_yStart = 0, sc_yEnd = 0, sc_zStart = 0, sc_zEnd = 0,
      sc_arrayStart = 0, sc_arrayEnd = 0\<rparr>"

definition window2to6by1to3 :: RsScriptCall where
  "window2to6by1to3 =
     \<lparr>sc_xStart = 2, sc_xEnd = 6, sc_yStart = 1, sc_yEnd = 3, sc_zStart = 0, sc_zEnd = 0,
      sc_arrayStart = 0, sc_arrayEnd = 0\<rparr>"

definition oneKernelExecutable :: RsdCpuScriptImpl where
  "oneKernelExecutable = (construct 3 7)\<lparr>exeForeachFuncAddrs := [500], exeForeachSigs := [1]\<rparr>"

subsection \<open>Global variables of object type\<close>

type_synonym byte = "8 word"

text \<open>
  Modelled from the spec: the classes \<^verbatim>\<open>Element\<close> and \<^verbatim>\<open>ObjectBase\<close> are not in
  this file. Of an element the file uses \<^verbatim>\<open>getSizeBytes()\<close>, \<^verbatim>\<open>incRefs(ptr)\<close> and
  \<^verbatim>\<open>decRefs(ptr)\<close>; by sections 3 and 4.3 these increment and decrement the
  reference count of every object handle held in the element stored at \<^verbatim>\<open>ptr\<close>,
  and an object whose count is no longer positive after a decrement is freed.
  \<open>refsOf\<close> gives the handles held in the bytes of one element.
\<close>

record Element =
  sizeBytes :: nat
  refsOf :: "byte list \<Rightarrow> nat list"

datatype refev = IncRef nat | DecRef nat

text \<open>
  Memory by address, the reference counts, the objects freed, and the log of
  reference-count operations in the order they happen.
\<close>

record Store = Context +
  mem :: "addr \<Rightarrow> byte"
  refcnt :: "nat \<Rightarrow> int"
  freed :: "nat list"
  events :: "refev list"

definition bytesAt :: "(addr \<Rightarrow> byte) \<Rightarrow> addr \<Rightarrow> nat \<Rightarrow> byte list" where
  "bytesAt m p n = map m [p..<p + n]"

definition incSysRef :: "nat \<Rightarrow> Store \<Rightarrow> Store" where
  "incSysRef ob st =
     st\<lparr>refcnt := (refcnt st)(ob := refcnt st ob + 1), events := events st @ [IncRef ob]\<rparr>"

definition decSysRef :: "nat \<Rightarrow> Store \<Rightarrow> Store" where
  "decSysRef ob st =
     st\<lparr>refcnt := (refcnt st)(ob := refcnt st ob - 1),
        freed := (if refcnt st ob - 1 \<le> 0 then freed st @ [ob] else freed st),
        events := events st @ [DecRef ob]\<rparr>"

definition incRefs :: "Element \<Rightarrow> addr \<Rightarrow> Store \<Rightarrow> Store" where
  "incRefs e p st = fold incSysRef (refsOf e (bytesAt (mem st) p (sizeBytes e))) st"

definition decRefs :: "Element \<Rightarrow> addr \<Rightarrow> Store \<Rightarrow> Store" where
  "decRefs e p st = fold decSysRef (refsOf e (bytesAt (mem st) p (sizeBytes e))) st"

text \<open>
  The two loops of \<^verbatim>\<open>setGlobalVarWithElemDims\<close>, each over \<^verbatim>\<open>dims[0]\<close>
  elements; the pointer advances by the stride, the count of elements left goes
  down.
\<close>

fun incLoop :: "Element \<Rightarrow> addr \<Rightarrow> nat \<Rightarrow> Store \<Rightarrow> Store" where
  "incLoop e cVal 0 st = st"
| "incLoop e cVal (Suc n) st = incLoop e (cVal + sizeBytes e) n (incRefs e cVal st)"

fun decLoop :: "Element \<Rightarrow> addr \<Rightarrow> nat \<Rightarrow> Store \<Rightarrow> Store" where
  "decLoop e oldVal 0 st = st"
| "decLoop e oldVal (Suc n) st = decLoop e (oldVal + sizeBytes e) n (decRefs e oldVal st)"

text \<open>\<^verbatim>\<open>memcpy(dest, src, n)\<close>: every byte copied is read from the memory before the copy.\<close>

definition memcpy :: "addr \<Rightarrow> addr \<Rightarrow> nat \<Rightarrow> Store \<Rightarrow> Store" where
  "memcpy dest src n st =
     st\<lparr>mem := (\<lambda>a. if dest \<le> a \<and> a < dest + n then mem st (src + (a - dest)) else mem st a)\<rparr>"

text \<open>
  The address of an exported variable: \<^verbatim>\<open>mFieldAddress[slot]\<close> in the
  compatibility library, \<^verbatim>\<open>mExecutable->getExportVarAddrs()[slot]\<close> otherwise.
\<close>

definition varAddr :: "bool \<Rightarrow> RsdCpuScriptImpl \<Rightarrow> Heap \<Rightarrow> u32 \<Rightarrow> addr option" where
  "varAddr clib s h slot =
     (if clib then readPtr h (mFieldAddress s) (unat slot)
      else nth_opt (exeVarAddrs s) (unat slot))"

text \<open>
  \<^verbatim>\<open>RsdCpuScriptImpl::setGlobalVarWithElemDims\<close>. \<open>dat\<close> is the address of the
  incoming bytes, \<open>dims\<close> the array of dimensions and \<open>dimLength\<close> its length in
  bytes. The copy at the end stands outside the test on the number of dimensions.
\<close>

definition setGlobalVarWithElemDims ::
  "bool \<Rightarrow> bool \<Rightarrow> RsdCpuScriptImpl \<Rightarrow> Heap \<Rightarrow> u32 \<Rightarrow> addr \<Rightarrow> nat \<Rightarrow> Element \<Rightarrow> nat list \<Rightarrow>
   nat \<Rightarrow> Store \<Rightarrow> Store flow" where
  "setGlobalVarWithElemDims fatal clib s h slot dat dataLength elem dims dimLength st =
     (case varAddr clib s h slot of
        None \<Rightarrow> Fault st
      | Some destPtr \<Rightarrow>
          if destPtr = 0 then Return st
          else
            let dl = dimLength div 4 in
            thenf (rsAssert fatal (dl = 1) ''dimLength == 1'' st) (\<lambda>st.
            thenf (if dl = 1 then
                     (case dims of
                        [] \<Rightarrow> Fault st
                      | d0 # ds \<Rightarrow> Next (decLoop elem destPtr d0 (incLoop elem dat d0 st)))
                   else Next st) (\<lambda>st.
              Next (memcpy destPtr dat dataLength st))))"

text \<open>The object handles held in \<open>n\<close> consecutive elements starting at \<open>p\<close>.\<close>

definition heldIn :: "Element \<Rightarrow> (addr \<Rightarrow> byte) \<Rightarrow> addr \<Rightarrow> nat \<Rightarrow> nat list" where
  "heldIn e m p n =
     concat (map (\<lambda>i. refsOf e (bytesAt m (p + i * sizeBytes e) (sizeBytes e))) [0..<n])"

text \<open>The \<open>n\<close> bytes at \<open>p\<close> and the \<open>n\<close> bytes at \<open>q\<close> are the same.\<close>

definition sameBytes :: "(addr \<Rightarrow> byte) \<Rightarrow> addr \<Rightarrow> addr \<Rightarrow> nat \<Rightarrow> bool" where
  "sameBytes m p q n = (bytesAt m p n = bytesAt m q n)"

text \<open>
  An element of four bytes whose first byte is an object handle, 0 being no object;
  a store whose memory holds handle 5 at address 100 and handle 6 at 104, and
  handle 5 again at 200, each object with one reference.
\<close>

definition handleElement :: Element where
  "handleElement = \<lparr>sizeBytes = 4, refsOf = (\<lambda>bs. filter (\<lambda>n. n \<noteq> 0) (map unat (take 1 bs)))\<rparr>"

definition demoStore :: Store where
  "demoStore =
     \<lparr>errors = [], asserts = [], tls = None, calls = [],
      mem = (\<lambda>a. if a = 100 then 5 else if a = 104 then 6 else if a = 200 then 5 else 0),
      refcnt = (\<lambda>ob. 1), freed = [], events = []\<rparr>"

subsection \<open>The file system and the loader of the compatibility library\<close>

text \<open>
  What the loader sees of the process and its file system: the directory entries
  that exist, the target of each symbolic link, the directories the process may
  read, write and search, the directories \<^verbatim>\<open>mkdir\<close> is able to create, the files
  \<^verbatim>\<open>dlopen\<close> accepts, the entries \<^verbatim>\<open>unlink\<close> refuses to remove, the static set
  \<^verbatim>\<open>LoadedLibraries\<close>, and the values \<^verbatim>\<open>arc4random\<close> will return. The model
  also keeps the calls of \<^verbatim>\<open>symlink\<close>, \<^verbatim>\<open>dlopen\<close> and \<^verbatim>\<open>unlink\<close> in the
  order they are made. \<^verbatim>\<open>symlink\<close> fails on a name that exists; \<^verbatim>\<open>unlink\<close>
  fails on a name that does not exist and on an entry it refuses to remove. A
  library handle is the name the library was opened under.
\<close>

datatype fsop = Symlink string string | Dlopen string | Unlink string

record World =
  files :: "string set"
  links :: "string \<Rightarrow> string option"
  usable :: "string set"
  creatable :: "string set"
  loadable :: "string set"
  undeletable :: "string set"
  LoadedLibraries :: "string set"
  rnd :: "nat \<Rightarrow> u32"
  rpos :: nat
  fsLog :: "fsop list"

definition arc4random :: "World \<Rightarrow> u32 \<times> World" where
  "arc4random w = (rnd w (rpos w), w\<lparr>rpos := Suc (rpos w)\<rparr>)"

text \<open>One character of \<^verbatim>\<open>getRandomString\<close>, from one value of \<^verbatim>\<open>arc4random\<close>.\<close>

definition randomChar :: "u32 \<Rightarrow> char" where
  "randomChar v =
     (let r = (v AND 0xffff) mod 62 in
      if r < 26 then char_of (of_char CHR ''a'' + unat r)
      else if r < 52 then char_of (of_char CHR ''A'' + (unat r - 26))
      else char_of (of_char CHR ''0'' + (unat r - 52)))"

fun getRandomString :: "nat \<Rightarrow> World \<Rightarrow> string \<times> World" where
  "getRandomString 0 w = ([], w)"
| "getRandomString (Suc n) w =
     (let (v, w1) = arc4random w;
          (cs, w2) = getRandomString n w1
      in (randomChar v # cs, w2))"

definition ensureCacheDirExists :: "string \<Rightarrow> World \<Rightarrow> bool \<times> World" where
  "ensureCacheDirExists path w =
     (if path \<in> usable w then (True, w)
      else if path \<in> creatable w \<and> path \<notin> files w
        then (True, w\<lparr>files := insert path (files w), usable := insert path (usable w)\<rparr>)
      else (False, w))"

definition symlink :: "string \<Rightarrow> string \<Rightarrow> World \<Rightarrow> bool \<times> World" where
  "symlink target name w =
     (let w0 = w\<lparr>fsLog := fsLog w @ [Symlink target name]\<rparr> in
      if name \<in> files w then (False, w0)
      else (True, w0\<lparr>files := insert name (files w), links := (links w)(name := Some target)\<rparr>))"

definition unlink :: "string \<Rightarrow> World \<Rightarrow> bool \<times> World" where
  "unlink name w =
     (let w0 = w\<lparr>fsLog := fsLog w @ [Unlink name]\<rparr> in
      if name \<in> files w \<and> name \<notin> undeletable w
        then (True, w0\<lparr>files := files w - {name}, links := (links w)(name := None)\<rparr>)
      else (False, w0))"

text \<open>
  \<^verbatim>\<open>dlopen\<close> accepts a name that exists and leads, through a link or directly, to
  a file that exists and is a loadable library.
\<close>

definition canOpen :: "string \<Rightarrow> World \<Rightarrow> bool" where
  "canOpen name w =
     (let target = (case links w name of Some t \<Rightarrow> t | None \<Rightarrow> name) in
      name \<in> files w \<and> target \<in> files w \<and> target \<in> loadable w)"

definition dlopen :: "string \<Rightarrow> World \<Rightarrow> string option \<times> World" where
  "dlopen name w =
     (if canOpen name w then Some name else None, w\<lparr>fsLog := fsLog w @ [Dlopen name]\<rparr>)"

text \<open>The name of the alias for a given random suffix.\<close>

definition aliasName :: "string \<Rightarrow> string \<Rightarrow> string \<Rightarrow> string" where
  "aliasName cacheDir resName suffix =
     cacheDir @ ''/com.android.renderscript.cache/'' @ ''librs.'' @ resName @ ''#'' @ suffix @ ''.so''"

text \<open>\<^verbatim>\<open>loadSOHelper\<close>: the handle, or \<open>None\<close> for \<^verbatim>\<open>NULL\<close>, and the world after the call.\<close>

definition loadSOHelper :: "string \<Rightarrow> string \<Rightarrow> string \<Rightarrow> World \<Rightarrow> string option \<times> World" where
  "loadSOHelper origName cacheDir resName w =
     (if origName \<notin> files w then (None, w)
      else if origName \<notin> LoadedLibraries w then
        (case dlopen origName w of
           (Some so, w1) \<Rightarrow>
             (Some so, w1\<lparr>LoadedLibraries := insert origName (LoadedLibraries w1)\<rparr>)
         | (None, w1) \<Rightarrow> (None, w1))
      else
        (let (ok, w1) = ensureCacheDirExists (cacheDir @ ''/com.android.renderscript.cache/'') w in
         if \<not> ok then (None, w1)
         else
           (let (suffix, w2) = getRandomString 6 w1;
                newName = aliasName cacheDir resName suffix;
                (linked, w3) = symlink origName newName w2
            in if \<not> linked then (None, w3)
               else
                 (let (loaded, w4) = dlopen newName w3;
                      (unlinked, w5) = unlink newName w4
                  in case loaded of
                       Some so \<Rightarrow>
                         (Some so, w5\<lparr>LoadedLibraries := insert newName (LoadedLibraries w5)\<rparr>)
                     | None \<Rightarrow> (None, w5)))))"

text \<open>
  \<^verbatim>\<open>std::string::rfind\<close>: the last position at which \<open>pat\<close> occurs in \<open>str\<close>.
\<close>

definition rfind :: "string \<Rightarrow> string \<Rightarrow> nat option" where
  "rfind str pat =
     (case filter (\<lambda>i. take (length pat) (drop i str) = pat) (rev [0..<Suc (length str)]) of
        [] \<Rightarrow> None
      | i # _ \<Rightarrow> Some i)"

text \<open>\<^verbatim>\<open>loadSharedLibrary\<close>, without \<^verbatim>\<open>RS_SERVER\<close>.\<close>

definition loadSharedLibrary :: "string \<Rightarrow> string \<Rightarrow> World \<Rightarrow> string option \<times> World" where
  "loadSharedLibrary cacheDir resName w =
     (let scriptSOName =
            (case rfind cacheDir ''cache'' of
               Some cutPos \<Rightarrow> take cutPos cacheDir
             | None \<Rightarrow> cacheDir) @ ''/lib/librs.'' @ resName @ ''.so'';
          (loaded, w1) = loadSOHelper scriptSOName cacheDir resName w
      in case loaded of
           Some so \<Rightarrow> (Some so, w1)
         | None \<Rightarrow> loadSOHelper (''/system/lib/librs.'' @ resName @ ''.so'') cacheDir resName w1)"





text \<open>
  A world for examples: the library of script \<open>foo\<close> is installed, under the name
  \<^verbatim>\<open>loadSharedLibrary\<close> makes from the cache directory \<^verbatim>\<open>/data/app/cache\<close>, and loadable,
  the cache directory of the alias exists, and the random source counts 0, 1, 2, ...
  In \<open>loadedWorld\<close> the library has been loaded once already. In \<open>stickyWorld\<close>
  it has, and \<^verbatim>\<open>unlink\<close> refuses to remove the alias the next load will make.
\<close>

definition freshWorld :: World where
  "freshWorld =
     \<lparr>files = {''/data/app//lib/librs.foo.so'', ''/data/app/cache/com.android.renderscript.cache/''},
      links = (\<lambda>n. None),
      usable = {''/data/app/cache/com.android.renderscript.cache/''},
      creatable = {},
      loadable = {''/data/app//lib/librs.foo.so''},
      undeletable = {},
      LoadedLibraries = {},
      rnd = (\<lambda>i. of_nat i), rpos = 0, fsLog = []\<rparr>"






subsection \<open>Reading the metadata\<close>

text \<open>
  The pointer \<^verbatim>\<open>rsInfo\<close> into the text of the symbol \<^verbatim>\<open>.rs.info\<close>: \<^verbatim>\<open>NULL\<close>, at
  the rest of the text (a C string is the list of its characters before the
  terminator), or one past the terminator.
\<close>

datatype cursor = NullPtr | At string | PastEnd

definition MAXLINE :: nat where
  "MAXLINE = 500"

text \<open>
  The loop of \<^verbatim>\<open>strgets\<close>, with \<open>n\<close> iterations left. A newline is copied and
  ends the line. At the end of the text the terminator is copied and the pointer
  is advanced past it. After \<open>n\<close> characters the line is cut.
\<close>

fun strgets_copy :: "nat \<Rightarrow> string \<Rightarrow> string \<Rightarrow> string \<times> cursor" where
  "strgets_copy 0 cs acc = (rev acc, At cs)"
| "strgets_copy (Suc n) [] acc = (rev acc, PastEnd)"
| "strgets_copy (Suc n) (c # cs) acc =
     (if c = CHR 0x0A then (rev (c # acc), At cs) else strgets_copy n cs (c # acc))"

text \<open>
  \<^verbatim>\<open>strgets(s, size, ppstr)\<close>: the line, or \<open>None\<close> for \<^verbatim>\<open>NULL\<close>, and the pointer
  after the call. The outer \<open>None\<close> is a read through a pointer that is past the
  terminator, which has no defined behaviour.
\<close>

definition strgets :: "nat \<Rightarrow> cursor \<Rightarrow> (string option \<times> cursor) option" where
  "strgets sz cur =
     (case cur of
        NullPtr \<Rightarrow> Some (None, NullPtr)
      | PastEnd \<Rightarrow> None
      | At cs \<Rightarrow>
          if cs = [] \<or> sz < 1 then Some (None, At cs)
          else (let (ln, cur') = strgets_copy (sz - 1) cs [] in Some (Some ln, cur')))"

text \<open>\<^verbatim>\<open>c = strrchr(line, '\n'); if (c) *c = '\0';\<close>\<close>

definition chomp :: "string \<Rightarrow> string" where
  "chomp ln =
     (if CHR 0x0A \<in> set ln then rev (tl (dropWhile (\<lambda>c. c \<noteq> CHR 0x0A) (rev ln))) else ln)"

text \<open>
  \<^verbatim>\<open>strncat(tmpName, ".expand", MAXLINE-1-strlen(tmpName))\<close>; the count is a
  \<^verbatim>\<open>size_t\<close> of 32 bits and wraps when the name is longer than \<open>MAXLINE - 1\<close>.
\<close>

definition expanded :: "string \<Rightarrow> string" where
  "expanded tmpName =
     tmpName @ take (if length tmpName \<le> MAXLINE - 1 then MAXLINE - 1 - length tmpName
                     else 2 ^ 32 - (length tmpName - (MAXLINE - 1))) ''.expand''"

text \<open>
  The C library as the loader uses it. \<open>dlsym so name\<close> is the address of a symbol
  of the library \<open>so\<close>, 0 when it has none; \<open>infoText so\<close> is the text at its symbol
  \<^verbatim>\<open>.rs.info\<close>. The three scans are the calls of \<^verbatim>\<open>sscanf\<close>: a count after a
  prefix (\<^verbatim>\<open>"exportVarCount: %zu"\<close> and its like), a kernel record
  (\<^verbatim>\<open>"%u - %500s"\<close>) and an unsigned number (\<^verbatim>\<open>"%u"\<close>); \<open>None\<close> when \<^verbatim>\<open>sscanf\<close>
  does not convert every item.
\<close>

record Libc =
  dlsym :: "string \<Rightarrow> string \<Rightarrow> addr"
  infoText :: "string \<Rightarrow> string option"
  scanCount :: "string \<Rightarrow> string \<Rightarrow> nat option"
  scanForEach :: "string \<Rightarrow> (u32 \<times> string) option"
  scanUnsigned :: "string \<Rightarrow> u32 option"

text \<open>
  The state of a load: the host context, the heap, the file system, the script
  object, the pointer \<^verbatim>\<open>rsInfo\<close> and the buffer \<^verbatim>\<open>line\<close>, and four logs: the
  operations on the context's mutex (\<open>True\<close> locks), the handles given to
  \<^verbatim>\<open>dlclose\<close>, the kernels looked up (slot, symbol, address found), and the
  addresses given to \<^verbatim>\<open>rsrClearObject\<close>.
\<close>

record Loader = Context +
  heap :: Heap
  world :: World
  script :: RsdCpuScriptImpl
  rsInfo :: cursor
  line :: string
  mutexOps :: "bool list"
  dlclosed :: "string list"
  kernelLog :: "(nat \<times> string \<times> addr) list"
  cleared :: "addr list"

definition newArray :: "block \<Rightarrow> Heap \<Rightarrow> addr \<times> Heap" where
  "newArray b h =
     (if avail h = 0 then (0, h)
      else (brk h, h\<lparr>blocks := (blocks h)(brk h := Some b), brk := Suc (brk h),
                      avail := avail h - 1\<rparr>))"

definition deleteArray :: "addr \<Rightarrow> Heap \<Rightarrow> Heap" where
  "deleteArray p h =
     (if p = 0 then h else h\<lparr>blocks := (blocks h)(p := None), frees := frees h @ [p]\<rparr>)"

definition writePtr :: "Heap \<Rightarrow> addr \<Rightarrow> nat \<Rightarrow> addr \<Rightarrow> Heap option" where
  "writePtr h p i v =
     (case blocks h p of
        Some (Ptrs xs) \<Rightarrow>
          if i < length xs then Some (h\<lparr>blocks := (blocks h)(p := Some (Ptrs (xs[i := v])))\<rparr>)
          else None
      | _ \<Rightarrow> None)"

definition writeSig :: "Heap \<Rightarrow> addr \<Rightarrow> nat \<Rightarrow> u32 \<Rightarrow> Heap option" where
  "writeSig h p i v =
     (case blocks h p of
        Some (Sigs xs) \<Rightarrow>
          if i < length xs then Some (h\<lparr>blocks := (blocks h)(p := Some (Sigs (xs[i := v])))\<rparr>)
          else None
      | _ \<Rightarrow> None)"

definition writeBool :: "Heap \<Rightarrow> addr \<Rightarrow> nat \<Rightarrow> bool \<Rightarrow> Heap option" where
  "writeBool h p i v =
     (case blocks h p of
        Some (Bools xs) \<Rightarrow>
          if i < length xs then Some (h\<lparr>blocks := (blocks h)(p := Some (Bools (xs[i := v])))\<rparr>)
          else None
      | _ \<Rightarrow> None)"

text \<open>Inside the body of \<^verbatim>\<open>init\<close> the one early exit is \<^verbatim>\<open>goto error\<close>.\<close>

definition gotoError :: "'a \<Rightarrow> 'a flow" where
  "gotoError l = Return l"

text \<open>\<^verbatim>\<open>if (strgets(line, MAXLINE, &rsInfo) == NULL) goto error;\<close>\<close>

definition getLine :: "Loader \<Rightarrow> Loader flow" where
  "getLine l =
     (case strgets MAXLINE (rsInfo l) of
        None \<Rightarrow> Fault l
      | Some (None, cur) \<Rightarrow> gotoError (l\<lparr>rsInfo := cur\<rparr>)
      | Some (Some ln, cur) \<Rightarrow> Next (l\<lparr>rsInfo := cur, line := ln\<rparr>))"

subsection \<open>init and the destructor of the compatibility library\<close>

text \<open>
  The loop over the exported variables. A variable without a symbol is stored as
  \<^verbatim>\<open>NULL\<close> and the load goes on. \<open>i\<close> is the index, the third argument counts
  the iterations left.
\<close>

definition varEntry :: "Libc \<Rightarrow> string \<Rightarrow> nat \<Rightarrow> Loader \<Rightarrow> Loader flow" where
  "varEntry lc so i l =
     thenf (getLine l) (\<lambda>l.
       let l1 = l\<lparr>line := chomp (line l)\<rparr> in
       case writePtr (heap l1) (mFieldAddress (script l1)) i (dlsym lc so (line l1)) of
         None \<Rightarrow> Fault l1
       | Some h \<Rightarrow> Next (l1\<lparr>heap := h\<rparr>))"

fun varLoop :: "Libc \<Rightarrow> string \<Rightarrow> nat \<Rightarrow> nat \<Rightarrow> Loader \<Rightarrow> Loader flow" where
  "varLoop lc so i 0 l = Next l"
| "varLoop lc so i (Suc k) l = thenf (varEntry lc so i l) (varLoop lc so (Suc i) k)"

definition varSection :: "Libc \<Rightarrow> string \<Rightarrow> Loader \<Rightarrow> Loader flow" where
  "varSection lc so l =
     thenf (getLine l) (\<lambda>l.
       case scanCount lc ''exportVarCount: '' (line l) of
         None \<Rightarrow> gotoError l
       | Some varCount \<Rightarrow>
           let l1 = l\<lparr>script := (script l)\<lparr>mExportedVariableCount := varCount\<rparr>\<rparr> in
           if 0 < varCount then
             (let (p, h1) = newArray (Bools (replicate varCount False)) (heap l1);
                  l2 = l1\<lparr>heap := h1, script := (script l1)\<lparr>mFieldIsObject := p\<rparr>\<rparr>
              in if p = 0 then gotoError l2
                 else
                   (let (q, h2) = newArray (Ptrs (replicate varCount 0)) (heap l2);
                        l3 = l2\<lparr>heap := h2, script := (script l2)\<lparr>mFieldAddress := q\<rparr>\<rparr>
                    in if q = 0 then gotoError l3 else varLoop lc so 0 varCount l3))
           else Next l1)"

text \<open>The loop over the exported functions: a function without a symbol fails the load.\<close>

definition funcEntry :: "Libc \<Rightarrow> string \<Rightarrow> nat \<Rightarrow> Loader \<Rightarrow> Loader flow" where
  "funcEntry lc so i l =
     thenf (getLine l) (\<lambda>l.
       let l1 = l\<lparr>line := chomp (line l)\<rparr>;
           f = dlsym lc so (line l1)
       in case writePtr (heap l1) (mInvokeFunctions (script l1)) i f of
            None \<Rightarrow> Fault l1
          | Some h \<Rightarrow> if f = 0 then gotoError (l1\<lparr>heap := h\<rparr>) else Next (l1\<lparr>heap := h\<rparr>))"

fun funcLoop :: "Libc \<Rightarrow> string \<Rightarrow> nat \<Rightarrow> nat \<Rightarrow> Loader \<Rightarrow> Loader flow" where
  "funcLoop lc so i 0 l = Next l"
| "funcLoop lc so i (Suc k) l = thenf (funcEntry lc so i l) (funcLoop lc so (Suc i) k)"

definition funcSection :: "Libc \<Rightarrow> string \<Rightarrow> Loader \<Rightarrow> Loader flow" where
  "funcSection lc so l =
     thenf (getLine l) (\<lambda>l.
       case scanCount lc ''exportFuncCount: '' (line l) of
         None \<Rightarrow> gotoError l
       | Some funcCount \<Rightarrow>
           let l1 = l\<lparr>script := (script l)\<lparr>mExportedFunctionCount := funcCount\<rparr>\<rparr> in
           if 0 < funcCount then
             (let (p, h1) = newArray (Ptrs (replicate funcCount 0)) (heap l1);
                  l2 = l1\<lparr>heap := h1, script := (script l1)\<lparr>mInvokeFunctions := p\<rparr>\<rparr>
              in if p = 0 then gotoError l2 else funcLoop lc so 0 funcCount l2)
           else Next l1)"

text \<open>
  The loop over the kernels. The signature and the address of the expanded kernel
  are stored, and only then is the address tested: a missing expanded kernel fails
  the load at every slot but slot 0.
\<close>

definition forEachEntry :: "Libc \<Rightarrow> string \<Rightarrow> nat \<Rightarrow> Loader \<Rightarrow> Loader flow" where
  "forEachEntry lc so i l =
     thenf (getLine l) (\<lambda>l.
       case scanForEach lc (line l) of
         None \<Rightarrow> gotoError l
       | Some (tmpSig, tmpName) \<Rightarrow>
           let nm = expanded tmpName;
               f = dlsym lc so nm
           in case writeSig (heap l) (mForEachSignatures (script l)) i tmpSig of
                None \<Rightarrow> Fault l
              | Some h1 \<Rightarrow>
                  (case writePtr h1 (mForEachFunctions (script l)) i f of
                     None \<Rightarrow> Fault (l\<lparr>heap := h1\<rparr>)
                   | Some h2 \<Rightarrow>
                       let l1 = l\<lparr>heap := h2, kernelLog := kernelLog l @ [(i, nm, f)]\<rparr>
                       in if i \<noteq> 0 \<and> f = 0 then gotoError l1 else Next l1))"

fun forEachLoop :: "Libc \<Rightarrow> string \<Rightarrow> nat \<Rightarrow> nat \<Rightarrow> Loader \<Rightarrow> Loader flow" where
  "forEachLoop lc so i 0 l = Next l"
| "forEachLoop lc so i (Suc k) l = thenf (forEachEntry lc so i l) (forEachLoop lc so (Suc i) k)"

definition forEachSection :: "Libc \<Rightarrow> string \<Rightarrow> Loader \<Rightarrow> Loader flow" where
  "forEachSection lc so l =
     thenf (getLine l) (\<lambda>l.
       case scanCount lc ''exportForEachCount: '' (line l) of
         None \<Rightarrow> gotoError l
       | Some forEachCount \<Rightarrow>
           if 0 < forEachCount then
             (let (p, h1) = newArray (Sigs (replicate forEachCount 0)) (heap l);
                  l2 = l\<lparr>heap := h1, script := (script l)\<lparr>mForEachSignatures := p\<rparr>\<rparr>
              in if p = 0 then gotoError l2
                 else
                   (let (q, h2) = newArray (Ptrs (replicate forEachCount 0)) (heap l2);
                        l3 = l2\<lparr>heap := h2, script := (script l2)\<lparr>mForEachFunctions := q\<rparr>\<rparr>
                    in if q = 0 then gotoError l3 else forEachLoop lc so 0 forEachCount l3))
           else Next l)"

text \<open>
  The loop over the object slots. A record whose index is not below \<open>varCount\<close>
  is read and nothing is written for it.
\<close>

definition objectSlotEntry :: "Libc \<Rightarrow> nat \<Rightarrow> Loader \<Rightarrow> Loader flow" where
  "objectSlotEntry lc varCount l =
     thenf (getLine l) (\<lambda>l.
       case scanUnsigned lc (line l) of
         None \<Rightarrow> gotoError l
       | Some varNum \<Rightarrow>
           if unat varNum < varCount then
             (case writeBool (heap l) (mFieldIsObject (script l)) (unat varNum) True of
                None \<Rightarrow> Fault l
              | Some h \<Rightarrow> Next (l\<lparr>heap := h\<rparr>))
           else Next l)"

fun objectSlotLoop :: "Libc \<Rightarrow> nat \<Rightarrow> nat \<Rightarrow> Loader \<Rightarrow> Loader flow" where
  "objectSlotLoop lc varCount 0 l = Next l"
| "objectSlotLoop lc varCount (Suc k) l =
     thenf (objectSlotEntry lc varCount l) (objectSlotLoop lc varCount k)"

definition objectSlotSection :: "bool \<Rightarrow> Libc \<Rightarrow> Loader \<Rightarrow> Loader flow" where
  "objectSlotSection fatal lc l =
     thenf (getLine l) (\<lambda>l.
       case scanCount lc ''objectSlotCount: '' (line l) of
         None \<Rightarrow> gotoError l
       | Some objectSlotCount \<Rightarrow>
           let varCount = mExportedVariableCount (script l) in
           if 0 < objectSlotCount then
             thenf (rsAssert fatal (0 < varCount) ''varCount > 0'' l)
               (objectSlotLoop lc varCount objectSlotCount)
           else Next l)"

text \<open>
  \<^verbatim>\<open>mBoundAllocs\<close>: the result of \<^verbatim>\<open>new[]\<close> goes to \<^verbatim>\<open>memset\<close> untested.
\<close>

definition boundAllocsSection :: "Loader \<Rightarrow> Loader flow" where
  "boundAllocsSection l =
     (let varCount = mExportedVariableCount (script l) in
      if 0 < varCount then
        (let (p, h1) = newArray (Ptrs (replicate varCount 0)) (heap l);
             l1 = l\<lparr>heap := h1, script := (script l)\<lparr>mBoundAllocs := p\<rparr>\<rparr>
         in if p = 0 then Fault l1 else Next l1)
      else Next l)"

text \<open>The statements of \<^verbatim>\<open>init\<close> between the lock and the two exits.\<close>

definition initBody :: "bool \<Rightarrow> Libc \<Rightarrow> string \<Rightarrow> string \<Rightarrow> Loader \<Rightarrow> Loader flow" where
  "initBody fatal lc resName cacheDir l =
     (let (loaded, w1) = loadSharedLibrary cacheDir resName (world l);
          l1 = l\<lparr>world := w1, script := (script l)\<lparr>mScriptSO := loaded\<rparr>\<rparr>
      in case loaded of
           None \<Rightarrow> gotoError l1
         | Some so \<Rightarrow>
             (let l2 = l1\<lparr>script := (script l1)\<lparr>mRoot := dlsym lc so ''root'',
                          mRootExpand := dlsym lc so ''root.expand'',
                          mInit := dlsym lc so ''init'',
                          mFreeChildren := dlsym lc so ''.rs.dtor''\<rparr>,
                        rsInfo := (case infoText lc so of None \<Rightarrow> NullPtr | Some t \<Rightarrow> At t)\<rparr>
              in thenf (varSection lc so l2) (\<lambda>l.
                 thenf (funcSection lc so l) (\<lambda>l.
                 thenf (forEachSection lc so l) (\<lambda>l.
                 thenf (objectSlotSection fatal lc l) boundAllocsSection)))))"

text \<open>
  The statements after the label \<^verbatim>\<open>error\<close>: the mutex is released, the six
  arrays are given to \<^verbatim>\<open>delete[]\<close> and the library, if there is one, is closed.
  No member of the object is assigned.
\<close>

definition errorPath :: "Loader \<Rightarrow> Loader" where
  "errorPath l =
     (let s = script l in
      l\<lparr>mutexOps := mutexOps l @ [False],
        heap := fold deleteArray
          [mInvokeFunctions s, mForEachFunctions s, mFieldAddress s, mFieldIsObject s,
           mForEachSignatures s, mBoundAllocs s] (heap l),
        dlclosed := (case mScriptSO s of Some so \<Rightarrow> dlclosed l @ [so] | None \<Rightarrow> dlclosed l)\<rparr>)"

text \<open>A call of a function that returns \<^verbatim>\<open>bool\<close> either returns or does not.\<close>

datatype 'a call = Returns bool 'a | Stops 'a

fun stateOf :: "'a call \<Rightarrow> 'a" where
  "stateOf (Returns b l) = l"
| "stateOf (Stops l) = l"

text \<open>\<^verbatim>\<open>RsdCpuScriptImpl::init\<close> with \<^verbatim>\<open>RS_COMPATIBILITY_LIB\<close>.\<close>

definition init :: "bool \<Rightarrow> Libc \<Rightarrow> string \<Rightarrow> string \<Rightarrow> Loader \<Rightarrow> Loader call" where
  "init fatal lc resName cacheDir l =
     (case initBody fatal lc resName cacheDir (l\<lparr>mutexOps := mutexOps l @ [True]\<rparr>) of
        Next l' \<Rightarrow> Returns True (l'\<lparr>mutexOps := mutexOps l' @ [False]\<rparr>)
      | Return l' \<Rightarrow> Returns False (errorPath l')
      | Abort l' \<Rightarrow> Stops l'
      | Fault l' \<Rightarrow> Stops l')"

text \<open>
  The destructor with \<^verbatim>\<open>RS_COMPATIBILITY_LIB\<close>: the objects in the object slots
  are cleared, then every array that is not \<^verbatim>\<open>NULL\<close> is given to \<^verbatim>\<open>delete[]\<close> and
  the library is closed.
\<close>

definition clearEntry :: "nat \<Rightarrow> Loader \<Rightarrow> Loader flow" where
  "clearEntry i l =
     (case readBool (heap l) (mFieldIsObject (script l)) i of
        None \<Rightarrow> Fault l
      | Some isObject \<Rightarrow>
          if isObject then
            (case readPtr (heap l) (mFieldAddress (script l)) i of
               None \<Rightarrow> Fault l
             | Some a \<Rightarrow> if a \<noteq> 0 then Next (l\<lparr>cleared := cleared l @ [a]\<rparr>) else Next l)
          else Next l)"

fun clearLoop :: "nat \<Rightarrow> nat \<Rightarrow> Loader \<Rightarrow> Loader flow" where
  "clearLoop i 0 l = Next l"
| "clearLoop i (Suc k) l = thenf (clearEntry i l) (clearLoop (Suc i) k)"

definition destroy :: "Loader \<Rightarrow> Loader flow" where
  "destroy l =
     thenf (if mFieldIsObject (script l) \<noteq> 0
            then clearLoop 0 (mExportedVariableCount (script l)) l else Next l) (\<lambda>l.
       let s = script l in
       Next (l\<lparr>heap := fold deleteArray
                 [mInvokeFunctions s, mForEachFunctions s, mFieldAddress s, mFieldIsObject s,
                  mForEachSignatures s, mBoundAllocs s] (heap l),
               dlclosed := (case mScriptSO s of Some so \<Rightarrow> dlclosed l @ [so] | None \<Rightarrow> dlclosed l)\<rparr>))"

subsection \<open>The metadata as a text\<close>










subsection \<open>A C library and a load for the examples\<close>

text \<open>
  The scans of a C library on the lines a metadata writer produces: decimal digits
  after the exact prefix, \<open>digits - name\<close> for a kernel, digits for an object slot.
\<close>

definition digitsOf :: "string \<Rightarrow> string" where
  "digitsOf ln = takeWhile (\<lambda>c. c \<in> set ''0123456789'') ln"

definition numberOf :: "string \<Rightarrow> nat" where
  "numberOf ds = foldl (\<lambda>n c. 10 * n + (of_char c - 48)) 0 ds"

definition plainCount :: "string \<Rightarrow> string \<Rightarrow> nat option" where
  "plainCount prefix ln =
     (if take (length prefix) ln = prefix \<and> digitsOf (drop (length prefix) ln) \<noteq> []
      then Some (numberOf (digitsOf (drop (length prefix) ln))) else None)"

definition plainForEach :: "string \<Rightarrow> (u32 \<times> string) option" where
  "plainForEach ln =
     (let d = digitsOf ln;
          rest = drop (length d) ln;
          nm = takeWhile (\<lambda>c. c \<noteq> CHR '' '' \<and> c \<noteq> CHR 0x0A) (drop 3 rest)
      in if d \<noteq> [] \<and> take 3 rest = '' - '' \<and> nm \<noteq> [] then Some (of_nat (numberOf d), nm)
         else None)"

definition plainUnsigned :: "string \<Rightarrow> u32 option" where
  "plainUnsigned ln = (if digitsOf ln = [] then None else Some (of_nat (numberOf (digitsOf ln))))"

text \<open>A library with the given symbols and the given text at \<^verbatim>\<open>.rs.info\<close>.\<close>

definition plainLibc :: "(string \<times> addr) list \<Rightarrow> string \<Rightarrow> Libc" where
  "plainLibc syms info =
     \<lparr>dlsym = (\<lambda>so name. case map_of syms name of Some a \<Rightarrow> a | None \<Rightarrow> 0),
      infoText = (\<lambda>so. Some info),
      scanCount = plainCount, scanForEach = plainForEach, scanUnsigned = plainUnsigned\<rparr>"

definition unlines :: "string list \<Rightarrow> string" where
  "unlines ls = concat (map (\<lambda>ln. ln @ [CHR 0x0A]) ls)"

text \<open>A script object just constructed, in a world where its library is installed.\<close>

definition freshLoader :: Loader where
  "freshLoader =
     \<lparr>errors = [], asserts = [], tls = None, calls = [],
      heap = emptyHeap, world = freshWorld, script = construct 3 7,
      rsInfo = NullPtr, line = [], mutexOps = [], dlclosed = [], kernelLog = [], cleared = []\<rparr>"

text \<open>
  A library with one variable \<open>x\<close>, the root kernel without an expanded variant,
  a kernel \<open>foo\<close> with one, and an object slot record that names variable 7.
\<close>

definition rootOnlyLibc :: Libc where
  "rootOnlyLibc =
     plainLibc [(''x'', 900), (''root'', 100), (''foo.expand'', 300)]
       (unlines [''exportVarCount: 1'', ''x'', ''exportFuncCount: 0'',
                 ''exportForEachCount: 2'', ''0 - root'', ''1 - foo'',
                 ''objectSlotCount: 1'', ''7''])"

text \<open>A library whose metadata declares a function \<open>bar\<close> that it does not define.\<close>

definition missingFuncLibc :: Libc where
  "missingFuncLibc =
     plainLibc [(''root'', 100)]
       (unlines [''exportVarCount: 0'', ''exportFuncCount: 1'', ''bar'',
                 ''exportForEachCount: 0'', ''objectSlotCount: 0''])"





section \<open>The iteration domain of a launch\<close>

lemma restrictX_unrestricted:
  "unrestricted sc \<Longrightarrow>
   restrictX fatal sc l = Next (l\<lparr>mtls := (mtls l)\<lparr>xEnd := fep_dimX (mtls l)\<rparr>\<rparr>)"
  by (simp add: restrictX_def unrestricted_def split: option.splits)

lemma restrictY_unrestricted:
  "unrestricted sc \<Longrightarrow>
   restrictY fatal sc l = Next (l\<lparr>mtls := (mtls l)\<lparr>yEnd := fep_dimY (mtls l)\<rparr>\<rparr>)"
  by (simp add: restrictY_def unrestricted_def split: option.splits)

lemma restrictZ_unrestricted:
  "unrestricted sc \<Longrightarrow>
   restrictZ fatal sc l = Next (l\<lparr>mtls := (mtls l)\<lparr>zEnd := fep_dimZ (mtls l)\<rparr>\<rparr>)"
  by (simp add: restrictZ_def unrestricted_def split: option.splits)

text \<open>
  The tail of the set-up leaves the start bounds alone, floors the end bounds at 1
  and reports no error, whether or not its assertion on the input's depth holds.
\<close>

lemma finishSetup_domain:
  "domainOf (mtls (reached (finishSetup fatal ctxp thr ain aout usr usrLen l))) =
     ((xStart (mtls l), max 1 (xEnd (mtls l))),
      (yStart (mtls l), max 1 (yEnd (mtls l))),
      (zStart (mtls l), max 1 (zEnd (mtls l))))"
  by (simp add: finishSetup_def rsAssert_def floorEnds_def fillIn_def fillOut_def Let_def
      domainOf_def split: option.splits)

lemma finishSetup_errors:
  "errors (reached (finishSetup fatal ctxp thr ain aout usr usrLen l)) = errors l"
  by (simp add: finishSetup_def rsAssert_def Let_def)

lemma setup_unrestricted:
  assumes "\<not> unbacked ain" and "\<not> unbacked aout" and "governing ain aout = Some a"
    and "unrestricted sc"
  shows "forEachMtlsSetup fatal ctxp thr ain aout usr usrLen sc c =
     finishSetup fatal ctxp thr ain aout usr usrLen
       (Context.extend c (Launch.fields
          (mtls_zero\<lparr>fep_dimX := tyDimX a, fep_dimY := tyDimY a, fep_dimZ := tyDimZ a,
             xEnd := tyDimX a, yEnd := tyDimY a, zEnd := tyDimZ a\<rparr>)))"
  using assms
  by (simp add: forEachMtlsSetup_def governing_def restrictX_unrestricted restrictY_unrestricted
      restrictZ_unrestricted takeDims_def Launch.defs Context.defs split: option.splits)

text \<open>
  A buffer that is supplied without backing store is rejected before any extent is
  read: the descriptor stays zeroed and the error sink gets one message.
\<close>

lemma setup_unbacked_rejected:
  "unbacked ain \<or> unbacked aout \<Longrightarrow>
   mtls (reached (forEachMtlsSetup fatal ctxp thr ain aout usr usrLen sc c)) = mtls_zero \<and>
   length (errors (reached (forEachMtlsSetup fatal ctxp thr ain aout usr usrLen sc c))) =
     Suc (length (errors c))"
  by (cases "unbacked ain")
    (auto simp: forEachMtlsSetup_def setError_def Launch.defs Context.defs Let_def)

text \<open>
  The tail of the set-up stops at its assertion when the input has a depth and a
  failed assertion is fatal, and runs to its end otherwise; a failure is logged
  either way.
\<close>

lemma finishSetup_flow:
  "finishSetup fatal ctxp thr ain aout usr usrLen l =
     (if fatal \<and> \<not> inputIsFlat ain
      then Abort (l\<lparr>mtls := floorEnds (mtls l),
             asserts := asserts l @ [''!ain || (ain->getType()->getDimZ() == 0)'']\<rparr>)
      else Next (reached (finishSetup fatal ctxp thr ain aout usr usrLen l)))"
  by (simp add: finishSetup_def rsAssert_def Let_def)

lemma finishSetup_asserts:
  "asserts (reached (finishSetup fatal ctxp thr ain aout usr usrLen l)) =
     (if inputIsFlat ain then asserts l
      else asserts l @ [''!ain || (ain->getType()->getDimZ() == 0)''])"
  by (simp add: finishSetup_def rsAssert_def Let_def)

text \<open>
  Claim C1 as stated fails where a buffer is supplied without backing store beside
  one that has it. The input is an image with backing store, so "at least one
  buffer is present with backing store" holds, and there is no sub-region; the
  output is a surface that is not bound yet. The set-up returns at its second
  test: the error sink has one message, and the domain is not the extent of the
  input but the zeroed one.
\<close>

theorem unbacked_output_beside_backed_input_is_rejected:
  "backed (Some image8x4) \<and> unrestricted None \<and>
   governing (Some image8x4) (Some unboundSurface) = Some image8x4 \<and>
   leftEarly (forEachMtlsSetup False 7 True (Some image8x4) (Some unboundSurface) 0 0 None idle) \<and>
   leftEarly (forEachMtlsSetup True 7 True (Some image8x4) (Some unboundSurface) 0 0 None idle) \<and>
   domainOf (mtls (reached
     (forEachMtlsSetup False 7 True (Some image8x4) (Some unboundSurface) 0 0 None idle))) =
     ((0, 0), (0, 0), (0, 0)) \<and>
   domainOf (mtls (reached
     (forEachMtlsSetup True 7 True (Some image8x4) (Some unboundSurface) 0 0 None idle))) =
     ((0, 0), (0, 0), (0, 0)) \<and>
   domainOf (mtls (reached
     (forEachMtlsSetup False 7 True (Some image8x4) (Some unboundSurface) 0 0 None idle))) \<noteq>
     ((0, max (tyDimX image8x4) 1), (0, max (tyDimY image8x4) 1), (0, max (tyDimZ image8x4) 1)) \<and>
   errors (reached
     (forEachMtlsSetup False 7 True (Some image8x4) (Some unboundSurface) 0 0 None idle)) =
     [''rsForEach called with null out allocations'']"
  by (simp add: backed_def unrestricted_def governing_def image8x4_def unboundSurface_def
      forEachMtlsSetup_def unbacked_def setError_def idle_def Launch.defs Context.defs
      domainOf_def mtls_zero_def)

text \<open>
  Claim C1, amended. When every buffer supplied has backing store, at least one is
  supplied (\<open>a\<close>, the input if there is one, else the output) and no sub-region is
  given (\<^verbatim>\<open>sc\<close> is \<^verbatim>\<open>NULL\<close> or its end fields are 0), \<^verbatim>\<open>forEachMtlsSetup\<close>
  reports no error and runs to its end, and the domain it has computed starts at 0
  on every axis and ends at \<open>max X 1\<close>, \<open>max Y 1\<close>, \<open>max Z 1\<close> for the extents
  \<open>X, Y, Z\<close> of \<open>a\<close>. The one exception is an input with a depth other than 0:
  the assertion on the input's depth fails then, and where a failed assertion is
  fatal the set-up stops at it instead of running to its end.
\<close>

theorem unrestricted_domain_is_floored_extent:
  assumes "\<not> unbacked ain" and "\<not> unbacked aout" and "governing ain aout = Some a"
    and "unrestricted sc"
  shows "(if fatal \<and> \<not> inputIsFlat ain
          then aborted (forEachMtlsSetup fatal ctxp thr ain aout usr usrLen sc c)
          else completed (forEachMtlsSetup fatal ctxp thr ain aout usr usrLen sc c) \<and>
            domainOf (mtls (reached (forEachMtlsSetup fatal ctxp thr ain aout usr usrLen sc c))) =
              ((0, max (tyDimX a) 1), (0, max (tyDimY a) 1), (0, max (tyDimZ a) 1))) \<and>
         asserts (reached (forEachMtlsSetup fatal ctxp thr ain aout usr usrLen sc c)) =
           (if inputIsFlat ain then asserts c
            else asserts c @ [''!ain || (ain->getType()->getDimZ() == 0)'']) \<and>
         errors (reached (forEachMtlsSetup fatal ctxp thr ain aout usr usrLen sc c)) = errors c"
proof -
  let ?l = "Context.extend c (Launch.fields
          (mtls_zero\<lparr>fep_dimX := tyDimX a, fep_dimY := tyDimY a, fep_dimZ := tyDimZ a,
             xEnd := tyDimX a, yEnd := tyDimY a, zEnd := tyDimZ a\<rparr>))"
  have k: "aborted (finishSetup fatal ctxp thr ain aout usr usrLen ?l) =
        (fatal \<and> \<not> inputIsFlat ain)"
      "completed (finishSetup fatal ctxp thr ain aout usr usrLen ?l) =
        (\<not> (fatal \<and> \<not> inputIsFlat ain))"
    by (subst finishSetup_flow, simp)+
  show ?thesis
    unfolding setup_unrestricted [OF assms] k
    by (simp add: finishSetup_domain finishSetup_errors finishSetup_asserts mtls_zero_def
        Launch.defs Context.defs max.commute)
qed

text \<open>
  Instances. On the image, with a sub-region that has a start but no end, the
  domain is the whole image and one layer. On the volume the assertion on the
  depth fails: a fatal one stops the set-up, a logging one lets it compute the
  whole volume.
\<close>

theorem unrestricted_domain_is_floored_extent_witness:
  "\<not> unbacked (Some image8x4) \<and> \<not> unbacked None \<and>
   governing (Some image8x4) None = Some image8x4 \<and>
   unrestricted (Some \<lparr>sc_xStart = 3, sc_xEnd = 0, sc_yStart = 0, sc_yEnd = 0, sc_zStart = 0,
       sc_zEnd = 0, sc_arrayStart = 0, sc_arrayEnd = 0\<rparr>) \<and>
   inputIsFlat (Some image8x4) \<and>
   completed (forEachMtlsSetup True 7 True (Some image8x4) None 0 0
       (Some \<lparr>sc_xStart = 3, sc_xEnd = 0, sc_yStart = 0, sc_yEnd = 0, sc_zStart = 0,
          sc_zEnd = 0, sc_arrayStart = 0, sc_arrayEnd = 0\<rparr>) idle) \<and>
   domainOf (mtls (reached (forEachMtlsSetup True 7 True (Some image8x4) None 0 0
       (Some \<lparr>sc_xStart = 3, sc_xEnd = 0, sc_yStart = 0, sc_yEnd = 0, sc_zStart = 0,
          sc_zEnd = 0, sc_arrayStart = 0, sc_arrayEnd = 0\<rparr>) idle))) =
     ((0, 8), (0, 4), (0, 1)) \<and>
   \<not> unbacked (Some volume8x4x2) \<and> governing (Some volume8x4x2) None = Some volume8x4x2 \<and>
   unrestricted None \<and> \<not> inputIsFlat (Some volume8x4x2) \<and>
   aborted (forEachMtlsSetup True 7 True (Some volume8x4x2) None 0 0 None idle) \<and>
   completed (forEachMtlsSetup False 7 True (Some volume8x4x2) None 0 0 None idle) \<and>
   domainOf (mtls (reached (forEachMtlsSetup False 7 True (Some volume8x4x2) None 0 0 None idle))) =
     ((0, 8), (0, 4), (0, 2)) \<and>
   asserts (reached (forEachMtlsSetup False 7 True (Some volume8x4x2) None 0 0 None idle)) =
     [''!ain || (ain->getType()->getDimZ() == 0)'']"
  using
    unrestricted_domain_is_floored_extent [where ain = "Some image8x4" and aout = None
      and a = image8x4 and fatal = True and ctxp = 7 and thr = True and usr = 0 and usrLen = 0
      and c = idle
      and sc = "Some \<lparr>sc_xStart = 3, sc_xEnd = 0, sc_yStart = 0, sc_yEnd = 0, sc_zStart = 0,
         sc_zEnd = 0, sc_arrayStart = 0, sc_arrayEnd = 0\<rparr>"]
    unrestricted_domain_is_floored_extent [where ain = "Some volume8x4x2" and aout = None
      and a = volume8x4x2 and fatal = True and ctxp = 7 and thr = True and usr = 0 and usrLen = 0
      and c = idle and sc = None]
    unrestricted_domain_is_floored_extent [where ain = "Some volume8x4x2" and aout = None
      and a = volume8x4x2 and fatal = False and ctxp = 7 and thr = True and usr = 0 and usrLen = 0
      and c = idle and sc = None]
  by (simp add: unbacked_def governing_def unrestricted_def inputIsFlat_def image8x4_def
      volume8x4x2_def idle_def)

section \<open>Restricted launches\<close>

lemma max_one_word: "e \<noteq> 0 \<Longrightarrow> max 1 e = (e::u32)"
  by (auto simp: max_def not_le)

lemma restrictX_within:
  "axisWithin (fep_dimX (mtls l)) (sc_xStart r) (sc_xEnd r) \<Longrightarrow>
   restrictX fatal (Some r) l =
     Next (l\<lparr>mtls := (mtls l)\<lparr>
        xStart := (if sc_xEnd r = 0 then xStart (mtls l) else min (fep_dimX (mtls l)) (sc_xStart r)),
        xEnd := (if sc_xEnd r = 0 then fep_dimX (mtls l) else min (fep_dimX (mtls l)) (sc_xEnd r))\<rparr>\<rparr>)"
  by (auto simp: restrictX_def axisWithin_def rsAssert_def Let_def)

lemma restrictY_within:
  "axisWithin (fep_dimY (mtls l)) (sc_yStart r) (sc_yEnd r) \<Longrightarrow>
   restrictY fatal (Some r) l =
     Next (l\<lparr>mtls := (mtls l)\<lparr>
        yStart := (if sc_yEnd r = 0 then yStart (mtls l) else min (fep_dimY (mtls l)) (sc_yStart r)),
        yEnd := (if sc_yEnd r = 0 then fep_dimY (mtls l) else min (fep_dimY (mtls l)) (sc_yEnd r))\<rparr>\<rparr>)"
  by (auto simp: restrictY_def axisWithin_def rsAssert_def Let_def)

lemma restrictZ_within:
  "axisWithin (fep_dimZ (mtls l)) (sc_zStart r) (sc_zEnd r) \<Longrightarrow>
   restrictZ fatal (Some r) l =
     Next (l\<lparr>mtls := (mtls l)\<lparr>
        zStart := (if sc_zEnd r = 0 then zStart (mtls l) else min (fep_dimZ (mtls l)) (sc_zStart r)),
        zEnd := (if sc_zEnd r = 0 then fep_dimZ (mtls l) else min (fep_dimZ (mtls l)) (sc_zEnd r))\<rparr>\<rparr>)"
  by (auto simp: restrictZ_def axisWithin_def rsAssert_def Let_def)

lemma axisRange_floor:
  "axisWithin d s e \<Longrightarrow>
   ((if e = 0 then 0 else min d s), max 1 (if e = 0 then d else min d e)) = axisRange d s e"
  by (auto simp: axisWithin_def axisRange_def max_one_word min_def)

text \<open>Within the extent, clamping changes nothing: a restricted axis keeps its bounds.\<close>

lemma axisRange_within: "axisWithin d s e \<Longrightarrow> e \<noteq> 0 \<Longrightarrow> axisRange d s e = (s, e)"
  by (auto simp: axisWithin_def axisRange_def min_def)

lemma setup_unfold:
  assumes "\<not> unbacked ain" and "\<not> unbacked aout" and "governing ain aout = Some a"
  shows "forEachMtlsSetup fatal ctxp thr ain aout usr usrLen sc c =
      thenf (restrictX fatal sc (takeDims a (Context.extend c (Launch.fields mtls_zero))))
        (\<lambda>l. thenf (restrictY fatal sc l)
        (\<lambda>l. thenf (restrictZ fatal sc l)
        (finishSetup fatal ctxp thr ain aout usr usrLen)))"
  using assms
  by (simp add: forEachMtlsSetup_def governing_def Let_def split: option.splits)

lemma setup_within:
  assumes "\<not> unbacked ain" and "\<not> unbacked aout" and "governing ain aout = Some a"
    and "within r a"
  shows "domainOf (mtls (reached (forEachMtlsSetup fatal ctxp thr ain aout usr usrLen (Some r) c))) =
      (axisRange (tyDimX a) (sc_xStart r) (sc_xEnd r),
       axisRange (tyDimY a) (sc_yStart r) (sc_yEnd r),
       axisRange (tyDimZ a) (sc_zStart r) (sc_zEnd r))"
proof -
  define l0 where "l0 = takeDims a (Context.extend c (Launch.fields mtls_zero))"
  have dims: "fep_dimX (mtls l0) = tyDimX a" "fep_dimY (mtls l0) = tyDimY a"
    "fep_dimZ (mtls l0) = tyDimZ a"
    by (simp_all add: l0_def takeDims_def Launch.defs Context.defs)
  have zero: "xStart (mtls l0) = 0" "yStart (mtls l0) = 0" "zStart (mtls l0) = 0"
    by (simp_all add: l0_def takeDims_def Launch.defs Context.defs mtls_zero_def)
  have w: "axisWithin (tyDimX a) (sc_xStart r) (sc_xEnd r)"
    "axisWithin (tyDimY a) (sc_yStart r) (sc_yEnd r)"
    "axisWithin (tyDimZ a) (sc_zStart r) (sc_zEnd r)"
    using assms(4) by (simp_all add: within_def)
  have eq: "forEachMtlsSetup fatal ctxp thr ain aout usr usrLen (Some r) c =
      thenf (restrictX fatal (Some r) l0)
        (\<lambda>l. thenf (restrictY fatal (Some r) l)
        (\<lambda>l. thenf (restrictZ fatal (Some r) l)
        (finishSetup fatal ctxp thr ain aout usr usrLen)))"
    unfolding l0_def by (rule setup_unfold [OF assms(1-3)])
  have x: "restrictX fatal (Some r) l0 = Next (l0\<lparr>mtls := (mtls l0)\<lparr>
        xStart := (if sc_xEnd r = 0 then 0 else min (tyDimX a) (sc_xStart r)),
        xEnd := (if sc_xEnd r = 0 then tyDimX a else min (tyDimX a) (sc_xEnd r))\<rparr>\<rparr>)"
    (is "_ = Next ?l1")
    using restrictX_within [of l0 r fatal] w(1) by (simp add: dims zero)
  have y: "restrictY fatal (Some r) ?l1 = Next (?l1\<lparr>mtls := (mtls ?l1)\<lparr>
        yStart := (if sc_yEnd r = 0 then 0 else min (tyDimY a) (sc_yStart r)),
        yEnd := (if sc_yEnd r = 0 then tyDimY a else min (tyDimY a) (sc_yEnd r))\<rparr>\<rparr>)"
    (is "_ = Next ?l2")
    using restrictY_within [of ?l1 r fatal] w(2) by (simp add: dims zero)
  have z: "restrictZ fatal (Some r) ?l2 = Next (?l2\<lparr>mtls := (mtls ?l2)\<lparr>
        zStart := (if sc_zEnd r = 0 then 0 else min (tyDimZ a) (sc_zStart r)),
        zEnd := (if sc_zEnd r = 0 then tyDimZ a else min (tyDimZ a) (sc_zEnd r))\<rparr>\<rparr>)"
    using restrictZ_within [of ?l2 r fatal] w(3) by (simp add: dims zero)
  show ?thesis
    unfolding eq x thenf.simps y z finishSetup_domain
    using w by (simp add: axisRange_floor)
qed

subsection \<open>What a launch leaves alone\<close>

lemma sameCtx_refl: "sameCtx c c"
  by (simp add: sameCtx_def)

lemma sameCtx_rsAssert: "sameCtx c l \<Longrightarrow> sameCtx c (reached (rsAssert fatal v txt l))"
  by (simp add: sameCtx_def rsAssert_def)

lemma sameCtx_thenf:
  "sameCtx c (reached f) \<Longrightarrow> (\<And>l. sameCtx c l \<Longrightarrow> sameCtx c (reached (g l))) \<Longrightarrow>
   sameCtx c (reached (thenf f g))"
  by (cases f) simp_all

lemma sameCtx_mtls: "sameCtx c l \<Longrightarrow> sameCtx c (l\<lparr>mtls := m\<rparr>)"
  by (simp add: sameCtx_def)

lemma restrictX_sameCtx: "sameCtx c l \<Longrightarrow> sameCtx c (reached (restrictX fatal sc l))"
  unfolding restrictX_def Let_def
  by (auto split: option.splits intro!: sameCtx_thenf sameCtx_rsAssert sameCtx_mtls)

lemma restrictY_sameCtx: "sameCtx c l \<Longrightarrow> sameCtx c (reached (restrictY fatal sc l))"
  unfolding restrictY_def Let_def
  by (auto split: option.splits intro!: sameCtx_thenf sameCtx_rsAssert sameCtx_mtls)

lemma restrictZ_sameCtx: "sameCtx c l \<Longrightarrow> sameCtx c (reached (restrictZ fatal sc l))"
  unfolding restrictZ_def Let_def
  by (auto split: option.splits intro!: sameCtx_thenf sameCtx_rsAssert sameCtx_mtls)

lemma finishSetup_sameCtx:
  "sameCtx c l \<Longrightarrow> sameCtx c (reached (finishSetup fatal ctxp thr ain aout usr usrLen l))"
  unfolding finishSetup_def Let_def
  by (auto intro!: sameCtx_thenf sameCtx_rsAssert sameCtx_mtls)

lemma setup_sameCtx:
  assumes "\<not> unbacked ain" and "\<not> unbacked aout" and "governing ain aout = Some a"
  shows "sameCtx c (reached (forEachMtlsSetup fatal ctxp thr ain aout usr usrLen sc c))"
proof -
  have "sameCtx c (takeDims a (Context.extend c (Launch.fields mtls_zero)))"
    by (simp add: sameCtx_def takeDims_def Launch.defs Context.defs)
  then show ?thesis
    unfolding setup_unfold [OF assms]
    by (intro sameCtx_thenf restrictX_sameCtx restrictY_sameCtx restrictZ_sameCtx
        finishSetup_sameCtx)
qed

lemma slices_upd:
  "slices (m\<lparr>kernel := k\<rparr>) = slices m"
  "slices (m\<lparr>sig := g\<rparr>) = slices m"
  "slices (m\<lparr>mt_script := x\<rparr>) = slices m"
  "slices (m\<lparr>fep_slot := y\<rparr>) = slices m"
  by (simp_all add: slices_def)

lemma kernelSetup_sameCtx:
  "sameCtx c l \<Longrightarrow> sameCtx c (reached (forEachKernelSetup fatal clib s h slot l))"
  unfolding forEachKernelSetup_def Let_def
  by (auto split: option.splits intro!: sameCtx_thenf sameCtx_rsAssert sameCtx_mtls)

lemma rsAssert_slices:
  "slices (mtls l) = S \<Longrightarrow> slices (mtls (reached (rsAssert fatal v txt l))) = S"
  by (simp add: rsAssert_def)

lemma thenf_slices:
  "slices (mtls (reached f)) = S \<Longrightarrow>
   (\<And>l. slices (mtls l) = S \<Longrightarrow> slices (mtls (reached (g l))) = S) \<Longrightarrow>
   slices (mtls (reached (thenf f g))) = S"
  by (cases f) simp_all

lemma kernelSetup_slices:
  "slices (mtls (reached (forEachKernelSetup fatal clib s h slot l))) = slices (mtls l)"
  unfolding forEachKernelSetup_def Let_def
  by (auto split: option.splits intro!: thenf_slices rsAssert_slices simp: slices_upd)

subsection \<open>Empty sub-regions\<close>

lemma product_Nil2: "List.product xs [] = []"
  by (induction xs) simp_all

lemma slices_empty:
  "xEnd m \<le> xStart m \<or> yEnd m \<le> yStart m \<or> zEnd m \<le> zStart m \<Longrightarrow> slices m = []"
  by (auto simp: slices_def product_Nil2 word_le_nat_alt)

text \<open>
  One axis block either goes on with a range that is not empty, or returns after
  at least one of its assertions has failed and been logged, or stops at a fatal
  assertion. Three assertions that hold leave a range that is not empty.
\<close>

lemma restrictX_outcome:
  "case restrictX fatal (Some r) l of
     Next l' \<Rightarrow> \<not> axisEmpty (fep_dimX (mtls l)) (sc_xStart r) (sc_xEnd r) \<and>
        length (asserts l) \<le> length (asserts l') \<and>
        fep_dimY (mtls l') = fep_dimY (mtls l) \<and> fep_dimZ (mtls l') = fep_dimZ (mtls l)
   | Return l' \<Rightarrow> \<not> fatal \<and> length (asserts l) < length (asserts l') \<and>
        xEnd (mtls l') \<le> xStart (mtls l')
   | Abort l' \<Rightarrow> fatal \<and> length (asserts l) < length (asserts l')
   | Fault l' \<Rightarrow> False"
  by (auto simp: restrictX_def rsAssert_def axisEmpty_def Let_def)

lemma restrictY_outcome:
  "case restrictY fatal (Some r) l of
     Next l' \<Rightarrow> \<not> axisEmpty (fep_dimY (mtls l)) (sc_yStart r) (sc_yEnd r) \<and>
        length (asserts l) \<le> length (asserts l') \<and>
        fep_dimZ (mtls l') = fep_dimZ (mtls l)
   | Return l' \<Rightarrow> \<not> fatal \<and> length (asserts l) < length (asserts l') \<and>
        yEnd (mtls l') \<le> yStart (mtls l')
   | Abort l' \<Rightarrow> fatal \<and> length (asserts l) < length (asserts l')
   | Fault l' \<Rightarrow> False"
  by (auto simp: restrictY_def rsAssert_def axisEmpty_def Let_def)

lemma restrictZ_outcome:
  "case restrictZ fatal (Some r) l of
     Next l' \<Rightarrow> \<not> axisEmpty (fep_dimZ (mtls l)) (sc_zStart r) (sc_zEnd r)
   | Return l' \<Rightarrow> \<not> fatal \<and> length (asserts l) < length (asserts l') \<and>
        zEnd (mtls l') \<le> zStart (mtls l')
   | Abort l' \<Rightarrow> fatal \<and> length (asserts l) < length (asserts l')
   | Fault l' \<Rightarrow> False"
  by (auto simp: restrictZ_def rsAssert_def axisEmpty_def Let_def)


lemma axes_empty:
  assumes "axisEmpty (fep_dimX (mtls l)) (sc_xStart r) (sc_xEnd r) \<or>
           axisEmpty (fep_dimY (mtls l)) (sc_yStart r) (sc_yEnd r) \<or>
           axisEmpty (fep_dimZ (mtls l)) (sc_zStart r) (sc_zEnd r)"
  shows "case thenf (restrictX fatal (Some r) l)
        (\<lambda>l. thenf (restrictY fatal (Some r) l)
        (\<lambda>l. thenf (restrictZ fatal (Some r) l) fin)) of
      Return l' \<Rightarrow> \<not> fatal \<and> length (asserts l) < length (asserts l') \<and> slices (mtls l') = []
    | Abort l' \<Rightarrow> fatal \<and> length (asserts l) < length (asserts l')
    | _ \<Rightarrow> False"
proof (cases "restrictX fatal (Some r) l")
  case (Next l1)
  with restrictX_outcome [where fatal = fatal and r = r and l = l]
  have x: "\<not> axisEmpty (fep_dimX (mtls l)) (sc_xStart r) (sc_xEnd r)"
    and a1: "length (asserts l) \<le> length (asserts l1)"
    and d1: "fep_dimY (mtls l1) = fep_dimY (mtls l)" "fep_dimZ (mtls l1) = fep_dimZ (mtls l)"
    by simp_all
  show ?thesis
  proof (cases "restrictY fatal (Some r) l1")
    case Next2: (Next l2)
    with restrictY_outcome [where fatal = fatal and r = r and l = l1]
    have y: "\<not> axisEmpty (fep_dimY (mtls l)) (sc_yStart r) (sc_yEnd r)"
      and a2: "length (asserts l1) \<le> length (asserts l2)"
      and d2: "fep_dimZ (mtls l2) = fep_dimZ (mtls l)"
      by (simp_all add: d1)
    from assms x y have z: "axisEmpty (fep_dimZ (mtls l2)) (sc_zStart r) (sc_zEnd r)"
      by (simp add: d2)
    show ?thesis
      using restrictZ_outcome [where fatal = fatal and r = r and l = l2] z Next Next2 a1 a2
      by (cases "restrictZ fatal (Some r) l2") (simp_all add: slices_empty)
  next
    case (Return l2)
    with restrictY_outcome [where fatal = fatal and r = r and l = l1] Next a1 show ?thesis
      by (simp add: slices_empty)
  next
    case (Abort l2)
    with restrictY_outcome [where fatal = fatal and r = r and l = l1] Next a1 show ?thesis
      by simp
  next
    case (Fault l2)
    with restrictY_outcome [where fatal = fatal and r = r and l = l1] show ?thesis
      by simp
  qed
next
  case (Return l1)
  with restrictX_outcome [where fatal = fatal and r = r and l = l] show ?thesis
    by (simp add: slices_empty)
next
  case (Abort l1)
  with restrictX_outcome [where fatal = fatal and r = r and l = l] show ?thesis
    by simp
next
  case (Fault l1)
  with restrictX_outcome [where fatal = fatal and r = r and l = l] show ?thesis
    by simp
qed

lemma setup_empty:
  assumes "\<not> unbacked ain" and "\<not> unbacked aout" and "governing ain aout = Some a"
    and "emptyAfterClamp r a"
  shows "case forEachMtlsSetup fatal ctxp thr ain aout usr usrLen (Some r) c of
      Return l' \<Rightarrow> \<not> fatal \<and> length (asserts c) < length (asserts l') \<and> slices (mtls l') = []
    | Abort l' \<Rightarrow> fatal \<and> length (asserts c) < length (asserts l')
    | _ \<Rightarrow> False"
proof -
  let ?l = "takeDims a (Context.extend c (Launch.fields mtls_zero))"
  have e: "axisEmpty (fep_dimX (mtls ?l)) (sc_xStart r) (sc_xEnd r) \<or>
           axisEmpty (fep_dimY (mtls ?l)) (sc_yStart r) (sc_yEnd r) \<or>
           axisEmpty (fep_dimZ (mtls ?l)) (sc_zStart r) (sc_zEnd r)"
    using assms(4) by (simp add: emptyAfterClamp_def takeDims_def)
  have a: "asserts ?l = asserts c"
    by (simp add: takeDims_def Launch.defs Context.defs)
  show ?thesis
    unfolding setup_unfold [OF assms(1-3)]
    using axes_empty [OF e, of fatal "finishSetup fatal ctxp thr ain aout usr usrLen"]
    unfolding a .
qed

lemma setup_within_finish:
  assumes "\<not> unbacked ain" and "\<not> unbacked aout" and "governing ain aout = Some a"
    and "within r a"
  shows "\<exists>l. forEachMtlsSetup fatal ctxp thr ain aout usr usrLen (Some r) c =
           finishSetup fatal ctxp thr ain aout usr usrLen l \<and> asserts l = asserts c"
proof -
  define l0 where "l0 = takeDims a (Context.extend c (Launch.fields mtls_zero))"
  have dims: "fep_dimX (mtls l0) = tyDimX a" "fep_dimY (mtls l0) = tyDimY a"
    "fep_dimZ (mtls l0) = tyDimZ a"
    by (simp_all add: l0_def takeDims_def Launch.defs Context.defs)
  have a0: "asserts l0 = asserts c"
    by (simp add: l0_def takeDims_def Launch.defs Context.defs)
  have w: "axisWithin (tyDimX a) (sc_xStart r) (sc_xEnd r)"
    "axisWithin (tyDimY a) (sc_yStart r) (sc_yEnd r)"
    "axisWithin (tyDimZ a) (sc_zStart r) (sc_zEnd r)"
    using assms(4) by (simp_all add: within_def)
  have eq: "forEachMtlsSetup fatal ctxp thr ain aout usr usrLen (Some r) c =
      thenf (restrictX fatal (Some r) l0)
        (\<lambda>l. thenf (restrictY fatal (Some r) l)
        (\<lambda>l. thenf (restrictZ fatal (Some r) l)
        (finishSetup fatal ctxp thr ain aout usr usrLen)))"
    unfolding l0_def by (rule setup_unfold [OF assms(1-3)])
  obtain l1 where x: "restrictX fatal (Some r) l0 = Next l1" and a1: "asserts l1 = asserts l0"
    and d1: "fep_dimY (mtls l1) = tyDimY a" "fep_dimZ (mtls l1) = tyDimZ a"
    using restrictX_within [of l0 r fatal] w(1) by (simp add: dims)
  obtain l2 where y: "restrictY fatal (Some r) l1 = Next l2" and a2: "asserts l2 = asserts l1"
    and d2: "fep_dimZ (mtls l2) = tyDimZ a"
    using restrictY_within [of l1 r fatal] w(2) by (simp add: d1)
  obtain l3 where z: "restrictZ fatal (Some r) l2 = Next l3" and a3: "asserts l3 = asserts l2"
    using restrictZ_within [of l2 r fatal] w(3) by (simp add: d2)
  show ?thesis
    unfolding eq x thenf.simps y z
    by (rule exI [of _ l3]) (simp add: a0 a1 a2 a3)
qed

text \<open>So a set-up on a sub-region that is empty after clamping ends without rows to run.\<close>

lemma setup_rowless:
  assumes "\<not> unbacked ain" and "\<not> unbacked aout" and "governing ain aout = Some a"
    and "emptyAfterClamp r a"
  shows "rowless (forEachMtlsSetup fatal ctxp thr ain aout usr usrLen (Some r) c)"
  using setup_empty [OF assms, where fatal = fatal and ctxp = ctxp and thr = thr and usr = usr
      and usrLen = usrLen and c = c]
  by (cases "forEachMtlsSetup fatal ctxp thr ain aout usr usrLen (Some r) c")
    (simp_all add: rowless_def)

text \<open>
  After a set-up without rows the rest of \<^verbatim>\<open>invokeForEach\<close> calls no kernel and
  reports nothing: the kernel lookup leaves the domain alone and the dispatcher
  finds no slice.
\<close>

lemma invoke_rowless:
  assumes "rowless f" and "sameCtx c (reached f)"
  shows "sameCtx c (reached (thenf (returned f) (\<lambda>l.
     thenf (returned (forEachKernelSetup fatal clib s h slot l)) (\<lambda>l.
       let (oldTLS, l1) = setTLS (Some (this s)) l;
           l2 = launchThreads (mtls l1) l1
       in Next (snd (setTLS oldTLS l2))))))"
proof (cases f)
  case (Return l)
  with assms have e: "slices (mtls l) = []" and fr: "sameCtx c l"
    by (simp_all add: rowless_def)
  show ?thesis
    using kernelSetup_sameCtx [OF fr, of fatal clib s h slot]
      kernelSetup_slices [of fatal clib s h slot l] e
    by (cases "forEachKernelSetup fatal clib s h slot l")
      (simp_all add: Return sameCtx_def setTLS_def launchThreads_def)
qed (use assms in \<open>simp_all add: rowless_def\<close>)

text \<open>
  Claim C2 as stated fails on a sub-region that is empty after clamping: the code
  asserts that every restricted axis has \<open>start < end\<close>, so such a launch is
  not an empty launch that passes in silence. For the columns from 5 to 3 of the
  image the assertion \<^verbatim>\<open>sc->xStart < sc->xEnd\<close> fails and is reported, whatever
  a failed assertion does, and where it is fatal the launch stops at it.
\<close>

theorem empty_subregion_fails_an_assertion:
  "\<not> unbacked (Some image8x4) \<and> governing (Some image8x4) None = Some image8x4 \<and>
   emptyAfterClamp columns5to3 image8x4 \<and>
   asserts (reached (invokeForEach False False oneKernelExecutable emptyHeap 0
       (Some image8x4) None 0 0 (Some columns5to3) idle)) = [''sc->xStart < sc->xEnd''] \<and>
   asserts (reached (invokeForEach True False oneKernelExecutable emptyHeap 0
       (Some image8x4) None 0 0 (Some columns5to3) idle)) = [''sc->xStart < sc->xEnd''] \<and>
   aborted (invokeForEach True False oneKernelExecutable emptyHeap 0
       (Some image8x4) None 0 0 (Some columns5to3) idle)"
  by code_simp

text \<open>
  Claim C2, amended. On a launch that passes buffer validation, with a sub-region
  \<open>r\<close>. If \<open>start < end \<le> extent\<close> on every restricted axis, no assertion on
  the sub-region fails, \<^verbatim>\<open>forEachMtlsSetup\<close> runs to its end and the domain it
  has computed is the sub-region clamped to the extent (an axis whose end is 0
  keeps the full extent, floored at 1); the one exception is the assertion on the
  depth of the input, as for launches without a sub-region. If some restricted axis
  has \<open>start \<ge> end\<close> after clamping, at least one assertion fails and is logged;
  where a failed assertion is fatal the set-up and the launch stop at it, and where
  it is not, the set-up returns early with a domain that has no slice. Either way
  \<^verbatim>\<open>invokeForEach\<close> makes no call into native code and reports nothing to the
  error sink.
\<close>

theorem subregion_domain_and_empty_launch:
  assumes "\<not> unbacked ain" and "\<not> unbacked aout" and "governing ain aout = Some a"
  shows "(within r a \<longrightarrow>
            (if fatal \<and> \<not> inputIsFlat ain
             then aborted
               (forEachMtlsSetup fatal (mCtx s) (mIsThreadable s) ain aout usr usrLen (Some r) c)
             else completed
               (forEachMtlsSetup fatal (mCtx s) (mIsThreadable s) ain aout usr usrLen (Some r) c) \<and>
               domainOf (mtls (reached
                 (forEachMtlsSetup fatal (mCtx s) (mIsThreadable s) ain aout usr usrLen (Some r) c))) =
               (axisRange (tyDimX a) (sc_xStart r) (sc_xEnd r),
                axisRange (tyDimY a) (sc_yStart r) (sc_yEnd r),
                axisRange (tyDimZ a) (sc_zStart r) (sc_zEnd r))) \<and>
            asserts (reached
              (forEachMtlsSetup fatal (mCtx s) (mIsThreadable s) ain aout usr usrLen (Some r) c)) =
              (if inputIsFlat ain then asserts c
               else asserts c @ [''!ain || (ain->getType()->getDimZ() == 0)''])) \<and>
         (emptyAfterClamp r a \<longrightarrow>
            length (asserts c) < length (asserts (reached
              (forEachMtlsSetup fatal (mCtx s) (mIsThreadable s) ain aout usr usrLen (Some r) c))) \<and>
            (if fatal
             then aborted
                 (forEachMtlsSetup fatal (mCtx s) (mIsThreadable s) ain aout usr usrLen (Some r) c) \<and>
               aborted (invokeForEach fatal clib s h slot ain aout usr usrLen (Some r) c)
             else leftEarly
                 (forEachMtlsSetup fatal (mCtx s) (mIsThreadable s) ain aout usr usrLen (Some r) c) \<and>
               slices (mtls (reached
                 (forEachMtlsSetup fatal (mCtx s) (mIsThreadable s) ain aout usr usrLen (Some r) c)))
                 = []) \<and>
            calls (reached (invokeForEach fatal clib s h slot ain aout usr usrLen (Some r) c)) =
              calls c \<and>
            errors (reached (invokeForEach fatal clib s h slot ain aout usr usrLen (Some r) c)) =
              errors c)"
proof (intro conjI impI)
  assume w: "within r a"
  from setup_within_finish [OF assms w, where fatal = fatal and ctxp = "mCtx s"
      and thr = "mIsThreadable s" and usr = usr and usrLen = usrLen and c = c]
  obtain l where eq: "forEachMtlsSetup fatal (mCtx s) (mIsThreadable s) ain aout usr usrLen
        (Some r) c = finishSetup fatal (mCtx s) (mIsThreadable s) ain aout usr usrLen l"
    and a: "asserts l = asserts c"
    by blast
  have k: "aborted (finishSetup fatal (mCtx s) (mIsThreadable s) ain aout usr usrLen l) =
        (fatal \<and> \<not> inputIsFlat ain)"
      "completed (finishSetup fatal (mCtx s) (mIsThreadable s) ain aout usr usrLen l) =
        (\<not> (fatal \<and> \<not> inputIsFlat ain))"
    by (subst finishSetup_flow, simp)+
  note d = setup_within [OF assms w, where fatal = fatal and ctxp = "mCtx s" and thr = "mIsThreadable s"
      and usr = usr and usrLen = usrLen and c = c]
  show "if fatal \<and> \<not> inputIsFlat ain
     then aborted
       (forEachMtlsSetup fatal (mCtx s) (mIsThreadable s) ain aout usr usrLen (Some r) c)
     else completed
       (forEachMtlsSetup fatal (mCtx s) (mIsThreadable s) ain aout usr usrLen (Some r) c) \<and>
       domainOf (mtls (reached
         (forEachMtlsSetup fatal (mCtx s) (mIsThreadable s) ain aout usr usrLen (Some r) c))) =
       (axisRange (tyDimX a) (sc_xStart r) (sc_xEnd r),
        axisRange (tyDimY a) (sc_yStart r) (sc_yEnd r),
        axisRange (tyDimZ a) (sc_zStart r) (sc_zEnd r))"
    using d unfolding eq k by simp
  show "asserts (reached
      (forEachMtlsSetup fatal (mCtx s) (mIsThreadable s) ain aout usr usrLen (Some r) c)) =
      (if inputIsFlat ain then asserts c
       else asserts c @ [''!ain || (ain->getType()->getDimZ() == 0)''])"
    unfolding eq finishSetup_asserts a ..
next
  assume e: "emptyAfterClamp r a"
  note em = setup_empty [OF assms e, where fatal = fatal and ctxp = "mCtx s"
      and thr = "mIsThreadable s" and usr = usr and usrLen = usrLen and c = c]
  note rl = setup_rowless [OF assms e, of fatal "mCtx s" "mIsThreadable s" usr usrLen c]
  note fr = setup_sameCtx [OF assms, of c fatal "mCtx s" "mIsThreadable s" usr usrLen "Some r"]
  from em show "length (asserts c) < length (asserts (reached
      (forEachMtlsSetup fatal (mCtx s) (mIsThreadable s) ain aout usr usrLen (Some r) c)))"
    by (cases "forEachMtlsSetup fatal (mCtx s) (mIsThreadable s) ain aout usr usrLen (Some r) c")
      simp_all
  from em show "if fatal
     then aborted
         (forEachMtlsSetup fatal (mCtx s) (mIsThreadable s) ain aout usr usrLen (Some r) c) \<and>
       aborted (invokeForEach fatal clib s h slot ain aout usr usrLen (Some r) c)
     else leftEarly
         (forEachMtlsSetup fatal (mCtx s) (mIsThreadable s) ain aout usr usrLen (Some r) c) \<and>
       slices (mtls (reached
         (forEachMtlsSetup fatal (mCtx s) (mIsThreadable s) ain aout usr usrLen (Some r) c)))
         = []"
    by (cases "forEachMtlsSetup fatal (mCtx s) (mIsThreadable s) ain aout usr usrLen (Some r) c")
      (simp_all add: invokeForEach_def)
  from invoke_rowless [OF rl fr, of fatal clib s h slot]
  show "calls (reached (invokeForEach fatal clib s h slot ain aout usr usrLen (Some r) c)) =
          calls c"
    and "errors (reached (invokeForEach fatal clib s h slot ain aout usr usrLen (Some r) c)) =
          errors c"
    by (simp_all add: invokeForEach_def sameCtx_def)
qed


text \<open>
  Instances on the image. The window of columns 2 to 5 and rows 1 to 2 is the
  domain computed, with one layer. For the columns from 5 to 3 an assertion fails,
  no kernel runs and the error sink stays empty; a logging assertion lets the
  set-up return early, a fatal one stops the launch.
\<close>

theorem subregion_domain_and_empty_launch_witness:
  "\<not> unbacked (Some image8x4) \<and> \<not> unbacked None \<and>
   governing (Some image8x4) None = Some image8x4 \<and>
   within window2to6by1to3 image8x4 \<and> inputIsFlat (Some image8x4) \<and>
   completed (forEachMtlsSetup True 7 True (Some image8x4) None 0 0 (Some window2to6by1to3) idle) \<and>
   domainOf (mtls (reached
     (forEachMtlsSetup True 7 True (Some image8x4) None 0 0 (Some window2to6by1to3) idle))) =
     ((2, 6), (1, 3), (0, 1)) \<and>
   asserts (reached
     (forEachMtlsSetup True 7 True (Some image8x4) None 0 0 (Some window2to6by1to3) idle)) = [] \<and>
   emptyAfterClamp columns5to3 image8x4 \<and>
   0 < length (asserts (reached
     (forEachMtlsSetup False 7 True (Some image8x4) None 0 0 (Some columns5to3) idle))) \<and>
   leftEarly (forEachMtlsSetup False 7 True (Some image8x4) None 0 0 (Some columns5to3) idle) \<and>
   slices (mtls (reached
     (forEachMtlsSetup False 7 True (Some image8x4) None 0 0 (Some columns5to3) idle))) = [] \<and>
   calls (reached (invokeForEach False False oneKernelExecutable emptyHeap 0
       (Some image8x4) None 0 0 (Some columns5to3) idle)) = [] \<and>
   errors (reached (invokeForEach False False oneKernelExecutable emptyHeap 0
       (Some image8x4) None 0 0 (Some columns5to3) idle)) = [] \<and>
   aborted (forEachMtlsSetup True 7 True (Some image8x4) None 0 0 (Some columns5to3) idle) \<and>
   aborted (invokeForEach True False oneKernelExecutable emptyHeap 0
       (Some image8x4) None 0 0 (Some columns5to3) idle) \<and>
   calls (reached (invokeForEach True False oneKernelExecutable emptyHeap 0
       (Some image8x4) None 0 0 (Some columns5to3) idle)) = []"
proof -
  have s: "mCtx oneKernelExecutable = 7" "mIsThreadable oneKernelExecutable = True"
    by (simp_all add: oneKernelExecutable_def construct_def)
  have h: "\<not> unbacked (Some image8x4)" "\<not> unbacked None"
    "governing (Some image8x4) None = Some image8x4"
    by (simp_all add: unbacked_def governing_def image8x4_def)
  note t = subregion_domain_and_empty_launch [OF h, where s = oneKernelExecutable and usr = 0
      and usrLen = 0 and c = idle and clib = False and h = emptyHeap and slot = 0]
  have w: "within window2to6by1to3 image8x4" "inputIsFlat (Some image8x4)"
    "emptyAfterClamp columns5to3 image8x4"
    "axisRange (tyDimX image8x4) (sc_xStart window2to6by1to3) (sc_xEnd window2to6by1to3) = (2, 6)"
    "axisRange (tyDimY image8x4) (sc_yStart window2to6by1to3) (sc_yEnd window2to6by1to3) = (1, 3)"
    "axisRange (tyDimZ image8x4) (sc_zStart window2to6by1to3) (sc_zEnd window2to6by1to3) = (0, 1)"
    by (simp_all add: within_def emptyAfterClamp_def axisWithin_def axisEmpty_def axisRange_def
        inputIsFlat_def image8x4_def window2to6by1to3_def columns5to3_def)
  from t [where r = window2to6by1to3 and fatal = True]
    t [where r = columns5to3 and fatal = False]
    t [where r = columns5to3 and fatal = True]
  show ?thesis
    unfolding s using h w by (simp add: idle_def)
qed

section \<open>Kernel resolution\<close>

text \<open>
  The full build checks the slot first: a slot at or beyond the number of kernels
  fails the assertion on the slot, and a fatal assertion stops there.
\<close>

lemma kernelSetup_full_out_of_range:
  assumes "length (exeForeachFuncAddrs s) \<le> unat slot"
  shows "asserts (reached (forEachKernelSetup fatal False s h slot l)) =
           asserts l @ [''slot < mExecutable->getExportForeachFuncAddrs().size()''] \<and>
         (fatal \<longrightarrow> forEachKernelSetup fatal False s h slot l =
            Abort (l\<lparr>asserts := asserts l @
                      [''slot < mExecutable->getExportForeachFuncAddrs().size()''],
                    mtls := (mtls l)\<lparr>mt_script := Some (this s), fep_slot := slot\<rparr>\<rparr>))"
  using assms
  by (simp add: forEachKernelSetup_def rsAssert_def nth_opt_def Let_def)

text \<open>Either build asserts on a kernel pointer that is \<^verbatim>\<open>NULL\<close>.\<close>

lemma kernelSetup_null_kernel:
  assumes "(if clib then readPtr h (mForEachFunctions s) (unat slot)
            else nth_opt (exeForeachFuncAddrs s) (unat slot)) = Some 0"
  shows "asserts (reached (forEachKernelSetup fatal clib s h slot l)) =
           asserts l @ [''mtls->kernel != NULL'']"
  using assms
  by (auto simp: forEachKernelSetup_def rsAssert_def nth_opt_def Let_def
      split: option.splits if_splits)

text \<open>
  The compatibility build has no assertion on the slot: past the end of
  \<^verbatim>\<open>mForEachFunctions\<close> it reads outside the array, and no assertion has failed.
\<close>

lemma kernelSetup_compat_out_of_range:
  assumes "readPtr h (mForEachFunctions s) (unat slot) = None"
  shows "forEachKernelSetup fatal True s h slot l =
           Fault (l\<lparr>mtls := (mtls l)\<lparr>mt_script := Some (this s), fep_slot := slot\<rparr>\<rparr>)"
  using assms by (simp add: forEachKernelSetup_def Let_def)

text \<open>
  Claim C6, at the input where the code departs from it: the compatibility build,
  one kernel declared, slot 1. Whatever a failed assertion does, the set-up reads
  \<^verbatim>\<open>mForEachFunctions[1]\<close> outside the array and no assertion fails.
\<close>

theorem kernel_slot_unchecked_in_compat_build:
  "\<forall>fatal. faulted (forEachKernelSetup fatal True oneKernelScript oneKernelHeap 1
              (Context.extend idle (Launch.fields mtls_zero))) \<and>
           asserts (reached (forEachKernelSetup fatal True oneKernelScript oneKernelHeap 1
              (Context.extend idle (Launch.fields mtls_zero)))) = []"
  by (simp add: forEachKernelSetup_def readPtr_def oneKernelScript_def oneKernelHeap_def
      construct_def idle_def Launch.defs Context.defs Let_def)

section \<open>The thread-local script around native calls\<close>

text \<open>
  \<^verbatim>\<open>invokeRoot\<close> and \<^verbatim>\<open>invokeFunction\<close> run the native code with the owning
  script installed and put the previous value back, whatever the native code did to
  it.
\<close>

lemma invokeRoot_paired:
  assumes "mRoot s \<noteq> 0"
  shows "invokeRoot native s c =
           Next ((native (mRoot s)
                   (c\<lparr>tls := Some (this s),
                      calls := calls c @ [(mRoot s, Some (this s))]\<rparr>))\<lparr>tls := tls c\<rparr>)"
  using assms
  by (simp add: invokeRoot_def setTLS_def callNative_def)

lemma invokeFunction_paired:
  assumes "(if clib then readPtr h (mInvokeFunctions s) (unat slot)
            else nth_opt (exeFuncAddrs s) (unat slot)) = Some f" and "f \<noteq> 0"
  shows "invokeFunction native clib s h slot c =
           Next ((native f
                   (c\<lparr>tls := Some (this s),
                      calls := calls c @ [(f, Some (this s))]\<rparr>))\<lparr>tls := tls c\<rparr>)"
  using assms
  by (simp add: invokeFunction_def setTLS_def callNative_def)

text \<open>
  \<^verbatim>\<open>invokeInit\<close> and \<^verbatim>\<open>invokeFreeChildren\<close> call the native code as they find
  the thread-local: they neither install the owning script nor restore anything.
\<close>

lemma invokeInit_unwrapped:
  "mInit s \<noteq> 0 \<Longrightarrow>
   invokeInit native s c = Next (native (mInit s) (c\<lparr>calls := calls c @ [(mInit s, tls c)]\<rparr>))"
  by (simp add: invokeInit_def callNative_def)

lemma invokeFreeChildren_unwrapped:
  "mFreeChildren s \<noteq> 0 \<Longrightarrow>
   invokeFreeChildren native s c =
     Next (native (mFreeChildren s) (c\<lparr>calls := calls c @ [(mFreeChildren s, tls c)]\<rparr>))"
  by (simp add: invokeFreeChildren_def callNative_def)

text \<open>
  Claim C9, at the input where the code departs from it: script 1 has an
  initializer at address 300 and is initialised on a thread whose thread-local
  names script 2. The initializer runs with script 2 installed, not its owner,
  while the root function of the same script at 200 runs with script 1 installed.
\<close>

theorem invokeInit_runs_without_owner_installed:
  "calls (reached (invokeInit (\<lambda>f c. c) ((construct 1 7)\<lparr>mRoot := 200, mInit := 300\<rparr>)
       (idle\<lparr>tls := Some 2\<rparr>))) = [(300, Some 2)] \<and>
   calls (reached (invokeRoot (\<lambda>f c. c) ((construct 1 7)\<lparr>mRoot := 200, mInit := 300\<rparr>)
       (idle\<lparr>tls := Some 2\<rparr>))) = [(200, Some 1)]"
  by (simp add: invokeInit_def invokeRoot_def callNative_def setTLS_def construct_def idle_def)

section \<open>Reference counts when an object array is set\<close>

lemma fold_incSysRef_parts:
  "refcnt (fold incSysRef xs st) = (\<lambda>ob. refcnt st ob + int (count_list xs ob)) \<and>
   events (fold incSysRef xs st) = events st @ map IncRef xs \<and>
   mem (fold incSysRef xs st) = mem st"
proof (induction xs arbitrary: st)
  case Nil
  show ?case by simp
next
  case (Cons x xs)
  have step: "fold incSysRef (x # xs) st = fold incSysRef xs (incSysRef x st)"
    by simp
  have r: "refcnt (incSysRef x st) = (refcnt st)(x := refcnt st x + 1)"
    and e: "events (incSysRef x st) = events st @ [IncRef x]"
    and m: "mem (incSysRef x st) = mem st"
    by (simp_all add: incSysRef_def)
  from Cons [of "incSysRef x st"]
  have a: "refcnt (fold incSysRef xs (incSysRef x st)) =
        (\<lambda>ob. refcnt (incSysRef x st) ob + int (count_list xs ob))"
    and b: "events (fold incSysRef xs (incSysRef x st)) = events (incSysRef x st) @ map IncRef xs"
    and c: "mem (fold incSysRef xs (incSysRef x st)) = mem (incSysRef x st)"
    by simp_all
  show ?case
    unfolding step a b c r e m
    by (simp add: fun_eq_iff)
qed

lemma fold_decSysRef_parts:
  "refcnt (fold decSysRef xs st) = (\<lambda>ob. refcnt st ob - int (count_list xs ob)) \<and>
   events (fold decSysRef xs st) = events st @ map DecRef xs \<and>
   mem (fold decSysRef xs st) = mem st"
proof (induction xs arbitrary: st)
  case Nil
  show ?case by simp
next
  case (Cons x xs)
  have step: "fold decSysRef (x # xs) st = fold decSysRef xs (decSysRef x st)"
    by simp
  have r: "refcnt (decSysRef x st) = (refcnt st)(x := refcnt st x - 1)"
    and e: "events (decSysRef x st) = events st @ [DecRef x]"
    and m: "mem (decSysRef x st) = mem st"
    by (simp_all add: decSysRef_def)
  from Cons [of "decSysRef x st"]
  have a: "refcnt (fold decSysRef xs (decSysRef x st)) =
        (\<lambda>ob. refcnt (decSysRef x st) ob - int (count_list xs ob))"
    and b: "events (fold decSysRef xs (decSysRef x st)) = events (decSysRef x st) @ map DecRef xs"
    and c: "mem (fold decSysRef xs (decSysRef x st)) = mem (decSysRef x st)"
    by simp_all
  show ?case
    unfolding step a b c r e m
    by (simp add: fun_eq_iff)
qed

lemma heldIn_0: "heldIn e m p 0 = []"
  by (simp add: heldIn_def)

lemma heldIn_Suc:
  "heldIn e m p (Suc n) = refsOf e (bytesAt m p (sizeBytes e)) @ heldIn e m (p + sizeBytes e) n"
proof -
  have "[0..<Suc n] = 0 # map Suc [0..<n]"
    unfolding map_Suc_upt by (rule upt_conv_Cons) simp
  then have "heldIn e m p (Suc n) =
      concat (map (\<lambda>i. refsOf e (bytesAt m (p + i * sizeBytes e) (sizeBytes e)))
        (0 # map Suc [0..<n]))"
    unfolding heldIn_def by (rule arg_cong)
  then show ?thesis
    by (simp add: heldIn_def comp_def add.assoc del: upt_Suc)
qed

lemma incLoop_parts:
  "refcnt (incLoop e p n st) = (\<lambda>ob. refcnt st ob + int (count_list (heldIn e (mem st) p n) ob)) \<and>
   events (incLoop e p n st) = events st @ map IncRef (heldIn e (mem st) p n) \<and>
   mem (incLoop e p n st) = mem st"
proof (induction n arbitrary: p st)
  case 0
  show ?case by (simp add: heldIn_0)
next
  case (Suc n)
  note f = fold_incSysRef_parts [of "refsOf e (bytesAt (mem st) p (sizeBytes e))" st]
  have step: "incLoop e p (Suc n) st = incLoop e (p + sizeBytes e) n (incRefs e p st)"
    by simp
  from f have fr: "refcnt (incRefs e p st) =
        (\<lambda>ob. refcnt st ob + int (count_list (refsOf e (bytesAt (mem st) p (sizeBytes e))) ob))"
    and fe: "events (incRefs e p st) =
        events st @ map IncRef (refsOf e (bytesAt (mem st) p (sizeBytes e)))"
    and fm: "mem (incRefs e p st) = mem st"
    by (simp_all add: incRefs_def)
  from Suc [of "p + sizeBytes e" "incRefs e p st"]
  have a: "refcnt (incLoop e (p + sizeBytes e) n (incRefs e p st)) =
        (\<lambda>ob. refcnt (incRefs e p st) ob +
           int (count_list (heldIn e (mem (incRefs e p st)) (p + sizeBytes e) n) ob))"
    and b: "events (incLoop e (p + sizeBytes e) n (incRefs e p st)) =
        events (incRefs e p st) @ map IncRef (heldIn e (mem (incRefs e p st)) (p + sizeBytes e) n)"
    and c: "mem (incLoop e (p + sizeBytes e) n (incRefs e p st)) = mem (incRefs e p st)"
    by simp_all
  show ?case
    unfolding step a b c fr fe fm heldIn_Suc
    by (simp add: fun_eq_iff)
qed

lemma decLoop_parts:
  "refcnt (decLoop e p n st) = (\<lambda>ob. refcnt st ob - int (count_list (heldIn e (mem st) p n) ob)) \<and>
   events (decLoop e p n st) = events st @ map DecRef (heldIn e (mem st) p n) \<and>
   mem (decLoop e p n st) = mem st"
proof (induction n arbitrary: p st)
  case 0
  show ?case by (simp add: heldIn_0)
next
  case (Suc n)
  note f = fold_decSysRef_parts [of "refsOf e (bytesAt (mem st) p (sizeBytes e))" st]
  have step: "decLoop e p (Suc n) st = decLoop e (p + sizeBytes e) n (decRefs e p st)"
    by simp
  from f have fr: "refcnt (decRefs e p st) =
        (\<lambda>ob. refcnt st ob - int (count_list (refsOf e (bytesAt (mem st) p (sizeBytes e))) ob))"
    and fe: "events (decRefs e p st) =
        events st @ map DecRef (refsOf e (bytesAt (mem st) p (sizeBytes e)))"
    and fm: "mem (decRefs e p st) = mem st"
    by (simp_all add: decRefs_def)
  from Suc [of "p + sizeBytes e" "decRefs e p st"]
  have a: "refcnt (decLoop e (p + sizeBytes e) n (decRefs e p st)) =
        (\<lambda>ob. refcnt (decRefs e p st) ob -
           int (count_list (heldIn e (mem (decRefs e p st)) (p + sizeBytes e) n) ob))"
    and b: "events (decLoop e (p + sizeBytes e) n (decRefs e p st)) =
        events (decRefs e p st) @ map DecRef (heldIn e (mem (decRefs e p st)) (p + sizeBytes e) n)"
    and c: "mem (decLoop e (p + sizeBytes e) n (decRefs e p st)) = mem (decRefs e p st)"
    by simp_all
  show ?case
    unfolding step a b c fr fe fm heldIn_Suc
    by (simp add: fun_eq_iff)
qed

lemma bytesAt_part:
  assumes "bytesAt m p n = bytesAt m q n" and "k + j \<le> n"
  shows "bytesAt m (p + k) j = bytesAt m (q + k) j"
proof (rule nth_equalityI)
  show "length (bytesAt m (p + k) j) = length (bytesAt m (q + k) j)"
    by (simp add: bytesAt_def)
next
  fix i assume "i < length (bytesAt m (p + k) j)"
  then have i: "i < j" by (simp add: bytesAt_def)
  with assms(2) have ki: "k + i < n" by simp
  from assms(1) have "bytesAt m p n ! (k + i) = bytesAt m q n ! (k + i)" by simp
  with ki have "m (p + (k + i)) = m (q + (k + i))"
    by (simp add: bytesAt_def)
  with i show "bytesAt m (p + k) j ! i = bytesAt m (q + k) j ! i"
    by (simp add: bytesAt_def add.assoc)
qed

lemma heldIn_sameBytes:
  assumes "sameBytes m p q (n * sizeBytes e)"
  shows "heldIn e m p n = heldIn e m q n"
proof -
  have "refsOf e (bytesAt m (p + i * sizeBytes e) (sizeBytes e)) =
        refsOf e (bytesAt m (q + i * sizeBytes e) (sizeBytes e))" if "i < n" for i
  proof -
    from that have "Suc i \<le> n" by simp
    then have "Suc i * sizeBytes e \<le> n * sizeBytes e"
      by (rule mult_le_mono1)
    then have "i * sizeBytes e + sizeBytes e \<le> n * sizeBytes e" by simp
    with assms have "bytesAt m (p + i * sizeBytes e) (sizeBytes e) =
        bytesAt m (q + i * sizeBytes e) (sizeBytes e)"
      unfolding sameBytes_def by (rule bytesAt_part)
    then show ?thesis by simp
  qed
  then have "map (\<lambda>i. refsOf e (bytesAt m (p + i * sizeBytes e) (sizeBytes e))) [0..<n] =
      map (\<lambda>i. refsOf e (bytesAt m (q + i * sizeBytes e) (sizeBytes e))) [0..<n]"
    by (intro map_cong refl) simp
  then show ?thesis
    unfolding heldIn_def by (rule arg_cong)
qed

text \<open>
  With a resolved address, one dimension and a dimension array that is there, the
  call is the increment loop, then the decrement loop, then the copy.
\<close>

lemma setGlobalVarWithElemDims_single:
  assumes "varAddr clib s h slot = Some destPtr" and "destPtr \<noteq> 0"
    and "dimLength div 4 = 1" and "dims = d0 # ds"
  shows "setGlobalVarWithElemDims fatal clib s h slot dat dataLength elem dims dimLength st =
     Next (memcpy destPtr dat dataLength (decLoop elem destPtr d0 (incLoop elem dat d0 st)))"
  using assms
  by (simp add: setGlobalVarWithElemDims_def rsAssert_def)

text \<open>
  Claim C3. A single-dimensional call on a slot with a resolved address performs
  the reference-count operations in this order: one increment for every object
  handle in the \<open>d0\<close> incoming elements, then one decrement for every object handle
  in the \<open>d0\<close> elements the slot held. When the incoming bytes are the bytes the
  slot holds (they may be the very same storage), every reference count after the
  call is what it was before.
\<close>

theorem increments_precede_decrements:
  assumes "varAddr clib s h slot = Some destPtr" and "destPtr \<noteq> 0"
    and "dimLength div 4 = 1" and "dims = d0 # ds"
  shows "events (reached
            (setGlobalVarWithElemDims fatal clib s h slot dat dataLength elem dims dimLength st)) =
           events st @ map IncRef (heldIn elem (mem st) dat d0) @
             map DecRef (heldIn elem (mem st) destPtr d0) \<and>
         (sameBytes (mem st) dat destPtr (d0 * sizeBytes elem) \<longrightarrow>
            refcnt (reached
              (setGlobalVarWithElemDims fatal clib s h slot dat dataLength elem dims dimLength st)) =
            refcnt st)"
proof -
  note i = incLoop_parts [of elem dat d0 st]
  note d = decLoop_parts [of elem destPtr d0 "incLoop elem dat d0 st"]
  have ev: "events (decLoop elem destPtr d0 (incLoop elem dat d0 st)) =
      events st @ map IncRef (heldIn elem (mem st) dat d0) @
        map DecRef (heldIn elem (mem st) destPtr d0)"
    using i d by simp
  have rc: "refcnt (decLoop elem destPtr d0 (incLoop elem dat d0 st)) =
      (\<lambda>ob. refcnt st ob + int (count_list (heldIn elem (mem st) dat d0) ob) -
         int (count_list (heldIn elem (mem st) destPtr d0) ob))"
    using i d by simp
  show ?thesis
    unfolding setGlobalVarWithElemDims_single [OF assms]
    by (auto simp: memcpy_def ev rc dest: heldIn_sameBytes)
qed

text \<open>
  An instance: the two-element array at address 100 is set from its own storage.
  The handles 5 and 6 are incremented, then decremented, and the counts end as
  they began.
\<close>

theorem increments_precede_decrements_witness:
  "varAddr False ((construct 3 7)\<lparr>exeVarAddrs := [100]\<rparr>) emptyHeap 0 = Some 100 \<and>
   (100::nat) \<noteq> 0 \<and> (4::nat) div 4 = 1 \<and>
   sameBytes (mem demoStore) 100 100 (2 * sizeBytes handleElement) \<and>
   events (reached (setGlobalVarWithElemDims False False
       ((construct 3 7)\<lparr>exeVarAddrs := [100]\<rparr>) emptyHeap 0 100 8 handleElement [2] 4
       demoStore)) = [IncRef 5, IncRef 6, DecRef 5, DecRef 6] \<and>
   refcnt (reached (setGlobalVarWithElemDims False False
       ((construct 3 7)\<lparr>exeVarAddrs := [100]\<rparr>) emptyHeap 0 100 8 handleElement [2] 4
       demoStore)) = refcnt demoStore"
proof -
  have h: "heldIn handleElement (mem demoStore) 100 2 = [5, 6]"
    by (simp add: heldIn_def handleElement_def demoStore_def bytesAt_def upt_rec)
  have v: "varAddr False ((construct 3 7)\<lparr>exeVarAddrs := [100]\<rparr>) emptyHeap 0 = Some 100"
    by (simp add: varAddr_def nth_opt_def construct_def)
  have e: "events demoStore = []"
    by (simp add: demoStore_def)
  from increments_precede_decrements [OF v, of 4 "[2]" 2 "[]" False 100 8 handleElement demoStore]
  show ?thesis
    by (simp add: h v e sameBytes_def)
qed

subsection \<open>Nothing is freed by a self-overwrite\<close>

lemma fold_incSysRef_freed: "freed (fold incSysRef xs st) = freed st"
  by (induction xs arbitrary: st) (simp_all add: incSysRef_def)

lemma incLoop_freed: "freed (incLoop e p n st) = freed st"
  by (induction n arbitrary: p st) (simp_all add: incRefs_def fold_incSysRef_freed)

lemma fold_decSysRef_freed:
  assumes "\<And>ob. ob \<in> set xs \<Longrightarrow> int (count_list xs ob) < refcnt st ob"
  shows "freed (fold decSysRef xs st) = freed st"
  using assms
proof (induction xs arbitrary: st)
  case Nil
  show ?case by simp
next
  case (Cons x xs)
  from Cons.prems [of x] have x: "1 + int (count_list xs x) < refcnt st x" by simp
  have r: "refcnt (decSysRef x st) = (refcnt st)(x := refcnt st x - 1)"
    and f: "freed (decSysRef x st) = freed st"
    using x by (simp_all add: decSysRef_def)
  have "int (count_list xs ob) < refcnt (decSysRef x st) ob" if "ob \<in> set xs" for ob
    using Cons.prems [of ob] that x by (cases "ob = x") (simp_all add: r)
  then have "freed (fold decSysRef xs (decSysRef x st)) = freed (decSysRef x st)"
    by (rule Cons.IH)
  then show ?case by (simp add: f)
qed

lemma decLoop_freed:
  assumes "\<And>ob. ob \<in> set (heldIn e (mem st) p n) \<Longrightarrow>
             int (count_list (heldIn e (mem st) p n) ob) < refcnt st ob"
  shows "freed (decLoop e p n st) = freed st"
  using assms
proof (induction n arbitrary: p st)
  case 0
  show ?case by simp
next
  case (Suc n)
  let ?A = "refsOf e (bytesAt (mem st) p (sizeBytes e))"
  let ?B = "heldIn e (mem st) (p + sizeBytes e) n"
  let ?st = "decRefs e p st"
  note parts = fold_decSysRef_parts [of ?A st]
  have lt: "int (count_list ?A ob) + int (count_list ?B ob) < refcnt st ob"
    if "ob \<in> set ?A \<or> ob \<in> set ?B" for ob
    using Suc.prems [of ob] that by (auto simp: heldIn_Suc)
  have a: "freed ?st = freed st"
    unfolding decRefs_def
  proof (rule fold_decSysRef_freed)
    fix ob assume "ob \<in> set ?A"
    with lt [of ob] show "int (count_list ?A ob) < refcnt st ob" by simp
  qed
  have m: "mem ?st = mem st" and rc: "refcnt ?st = (\<lambda>ob. refcnt st ob - int (count_list ?A ob))"
    using parts by (simp_all add: decRefs_def)
  have "freed (decLoop e (p + sizeBytes e) n ?st) = freed ?st"
  proof (rule Suc.IH)
    fix ob assume "ob \<in> set (heldIn e (mem ?st) (p + sizeBytes e) n)"
    then have "ob \<in> set ?B" by (simp add: m)
    with lt [of ob]
    show "int (count_list (heldIn e (mem ?st) (p + sizeBytes e) n) ob) < refcnt ?st ob"
      by (simp add: m rc)
  qed
  then show ?case by (simp add: a)
qed

text \<open>
  Because the increments come first, setting an object array from bytes equal to
  its own frees no object, as long as every object the slot holds has a reference.
\<close>

lemma self_overwrite_frees_nothing:
  assumes "varAddr clib s h slot = Some destPtr" and "destPtr \<noteq> 0"
    and "dimLength div 4 = 1" and "dims = d0 # ds"
    and same: "sameBytes (mem st) dat destPtr (d0 * sizeBytes elem)"
    and live: "\<And>ob. ob \<in> set (heldIn elem (mem st) destPtr d0) \<Longrightarrow> 0 < refcnt st ob"
  shows "freed (reached
      (setGlobalVarWithElemDims fatal clib s h slot dat dataLength elem dims dimLength st)) =
    freed st"
proof -
  let ?st = "incLoop elem dat d0 st"
  note i = incLoop_parts [of elem dat d0 st]
  from same have eq: "heldIn elem (mem st) dat d0 = heldIn elem (mem st) destPtr d0"
    by (rule heldIn_sameBytes)
  have "freed (decLoop elem destPtr d0 ?st) = freed ?st"
  proof (rule decLoop_freed)
    fix ob assume "ob \<in> set (heldIn elem (mem ?st) destPtr d0)"
    with i have "ob \<in> set (heldIn elem (mem st) destPtr d0)" by simp
    from live [OF this] i
    show "int (count_list (heldIn elem (mem ?st) destPtr d0) ob) < refcnt ?st ob"
      by (simp add: eq)
  qed
  then show ?thesis
    unfolding setGlobalVarWithElemDims_single [OF assms(1-4)]
    by (simp add: memcpy_def incLoop_freed)
qed

section \<open>Requests with several dimensions\<close>

text \<open>
  Claim C8 as stated fails on a slot whose variable has no address: a request with
  two dimensions returns at the first test, before the assertion on the number of
  dimensions, with no failure of any kind and the store as it was.
\<close>

theorem multi_dim_on_unresolved_slot_returns_silently:
  "\<forall>fatal. setGlobalVarWithElemDims fatal False ((construct 3 7)\<lparr>exeVarAddrs := [0]\<rparr>)
       emptyHeap 0 200 8 handleElement [2, 2] 8 demoStore = Return demoStore"
  by (simp add: setGlobalVarWithElemDims_def varAddr_def nth_opt_def construct_def)

text \<open>
  Claim C8, amended. On a slot without an address the call returns at once. On a
  slot with an address, a request with more than one dimension fails the
  assertion \<^verbatim>\<open>dimLength == 1\<close> and touches no reference count; if a failed
  assertion is fatal the call stops there and the memory is as before, and if it
  only logs, the \<open>dataLength\<close> bytes are still copied into the slot.
\<close>

theorem multi_dim_request_asserts:
  "(varAddr clib s h slot = Some 0 \<longrightarrow>
      setGlobalVarWithElemDims fatal clib s h slot dat dataLength elem dims dimLength st =
        Return st) \<and>
   (varAddr clib s h slot = Some destPtr \<and> destPtr \<noteq> 0 \<and> 1 < dimLength div 4 \<longrightarrow>
      asserts (reached
        (setGlobalVarWithElemDims fatal clib s h slot dat dataLength elem dims dimLength st)) =
        asserts st @ [''dimLength == 1''] \<and>
      events (reached
        (setGlobalVarWithElemDims fatal clib s h slot dat dataLength elem dims dimLength st)) =
        events st \<and>
      refcnt (reached
        (setGlobalVarWithElemDims fatal clib s h slot dat dataLength elem dims dimLength st)) =
        refcnt st \<and>
      (fatal \<longrightarrow>
        setGlobalVarWithElemDims fatal clib s h slot dat dataLength elem dims dimLength st =
          Abort (st\<lparr>asserts := asserts st @ [''dimLength == 1'']\<rparr>)) \<and>
      (\<not> fatal \<longrightarrow>
        setGlobalVarWithElemDims fatal clib s h slot dat dataLength elem dims dimLength st =
          Next (memcpy destPtr dat dataLength (st\<lparr>asserts := asserts st @ [''dimLength == 1'']\<rparr>))))"
  by (simp add: setGlobalVarWithElemDims_def rsAssert_def memcpy_def)

text \<open>
  Instances: two dimensions on the slot at address 100, copied from address 200.
  With a fatal assertion the byte at 100 is still 5; with a logging assertion it
  is overwritten. On a slot without an address nothing happens.
\<close>

theorem multi_dim_request_asserts_witness:
  "varAddr False ((construct 3 7)\<lparr>exeVarAddrs := [0, 100]\<rparr>) emptyHeap 0 = Some 0 \<and>
   setGlobalVarWithElemDims True False ((construct 3 7)\<lparr>exeVarAddrs := [0, 100]\<rparr>) emptyHeap 0
       204 8 handleElement [2, 2] 8 demoStore = Return demoStore \<and>
   varAddr False ((construct 3 7)\<lparr>exeVarAddrs := [0, 100]\<rparr>) emptyHeap 1 = Some 100 \<and>
   (100::nat) \<noteq> 0 \<and> (1::nat) < 8 div 4 \<and>
   asserts (reached (setGlobalVarWithElemDims True False
       ((construct 3 7)\<lparr>exeVarAddrs := [0, 100]\<rparr>) emptyHeap 1
       204 8 handleElement [2, 2] 8 demoStore)) = [''dimLength == 1''] \<and>
   events (reached (setGlobalVarWithElemDims True False
       ((construct 3 7)\<lparr>exeVarAddrs := [0, 100]\<rparr>) emptyHeap 1
       204 8 handleElement [2, 2] 8 demoStore)) = [] \<and>
   mem (reached (setGlobalVarWithElemDims True False
       ((construct 3 7)\<lparr>exeVarAddrs := [0, 100]\<rparr>) emptyHeap 1
       204 8 handleElement [2, 2] 8 demoStore)) 100 = 5 \<and>
   mem (reached (setGlobalVarWithElemDims False False
       ((construct 3 7)\<lparr>exeVarAddrs := [0, 100]\<rparr>) emptyHeap 1
       204 8 handleElement [2, 2] 8 demoStore)) 100 = 0"
proof -
  have v0: "varAddr False ((construct 3 7)\<lparr>exeVarAddrs := [0, 100]\<rparr>) emptyHeap 0 = Some 0"
    and v1: "varAddr False ((construct 3 7)\<lparr>exeVarAddrs := [0, 100]\<rparr>) emptyHeap 1 = Some 100"
    by (simp_all add: varAddr_def nth_opt_def construct_def)
  note t = multi_dim_request_asserts [where clib = False
      and s = "(construct 3 7)\<lparr>exeVarAddrs := [0, 100]\<rparr>" and h = emptyHeap
      and dat = 204 and dataLength = 8 and elem = handleElement and dims = "[2, 2]"
      and dimLength = 8 and st = demoStore]
  from t [where slot = 0 and fatal = True and destPtr = 100]
    t [where slot = 1 and fatal = True and destPtr = 100]
    t [where slot = 1 and fatal = False and destPtr = 100]
  show ?thesis
    by (simp add: v0 v1 memcpy_def demoStore_def)
qed

section \<open>The random suffix and the alias of a library loaded again\<close>























section \<open>Loading: kernels without an expanded variant\<close>



































text \<open>
  The library \<open>rootOnlyLibc\<close> has no \<^verbatim>\<open>root.expand\<close> and loads: the look-up at
  slot 0 found \<^verbatim>\<open>NULL\<close>, the one at slot 1 an address.
\<close>

lemma rootOnly_loads:
  "(case init False rootOnlyLibc ''foo'' ''/data/app/cache'' freshLoader of
      Returns b l \<Rightarrow> b \<and> kernelLog l = [(0, ''root.expand'', 0), (1, ''foo.expand'', 300)]
    | Stops l \<Rightarrow> False)"
  by code_simp



section \<open>Loading: object slot records\<close>



text \<open>
  In a whole load: \<open>rootOnlyLibc\<close> declares one variable and an object slot
  record for variable 7. The load succeeds, the array of flags (the first array
  allocated) still has its one flag unset, and no assertion failed.
\<close>

lemma rootOnly_object_slot_skipped:
  "(case init False rootOnlyLibc ''foo'' ''/data/app/cache'' freshLoader of
      Returns b l \<Rightarrow> b \<and> mFieldIsObject (script l) = 1 \<and>
        blocks (heap l) 1 = Some (Bools [False]) \<and> asserts l = [] \<and> errors l = []
    | Stops l \<Rightarrow> False)"
  by code_simp

section \<open>Loading: the exit through the label error\<close>

text \<open>
  The error path gives each array member that is not \<^verbatim>\<open>NULL\<close> to \<^verbatim>\<open>delete[]\<close>
  once and closes the library, and it leaves the members of the object as they are.
\<close>

lemma fold_deleteArray_frees:
  "frees (fold deleteArray ps h) = frees h @ filter (\<lambda>p. p \<noteq> 0) ps"
  by (induction ps arbitrary: h) (simp_all add: deleteArray_def)

lemma errorPath_releases:
  "frees (heap (errorPath l)) = frees (heap l) @ filter (\<lambda>p. p \<noteq> 0)
      [mInvokeFunctions (script l), mForEachFunctions (script l), mFieldAddress (script l),
       mFieldIsObject (script l), mForEachSignatures (script l), mBoundAllocs (script l)] \<and>
   script (errorPath l) = script l"
  by (simp add: errorPath_def Let_def fold_deleteArray_frees del: fold.simps)

text \<open>
  Claim C4, at the input where the code departs from it: the metadata declares one
  exported function whose symbol the library does not define. \<^verbatim>\<open>init\<close> returns
  false, having released the array \<^verbatim>\<open>mInvokeFunctions\<close> (at address 1) and closed
  the library; but the member still holds address 1 and \<^verbatim>\<open>mScriptSO\<close> still holds
  the handle. The destructor of the object then releases the same array and closes
  the same handle a second time.
\<close>

theorem failed_init_keeps_released_pointers:
  "list_all (\<lambda>fatal.
     case init fatal missingFuncLibc ''foo'' ''/data/app/cache'' freshLoader of
       Returns b l \<Rightarrow>
         b = False \<and> frees (heap l) = [1] \<and> blocks (heap l) 1 = None \<and>
         dlclosed l = [''/data/app//lib/librs.foo.so''] \<and>
         mInvokeFunctions (script l) = 1 \<and>
         mScriptSO (script l) = Some ''/data/app//lib/librs.foo.so'' \<and>
         frees (heap (reached (destroy l))) = [1, 1] \<and>
         dlclosed (reached (destroy l)) =
           [''/data/app//lib/librs.foo.so'', ''/data/app//lib/librs.foo.so'']
     | Stops l \<Rightarrow> False) [False, True]"
  by code_simp

end
